theory Spec2Isabelle
  imports Complex_Main
begin

section \<open>JavaScript values\<close>

text \<open>
  A JavaScript number is an IEEE double. The model keeps the three special values and
  takes every finite value as an exact rational: rounding and overflow of finite
  arithmetic are not modelled, and neither is the sign of zero (every zero divisor below
  is the positive zero produced by \<open>0 / 1000\<close> or by a sum of counts).
\<close>

datatype jsnum = Fin rat | PInf | NInf | NaN

fun js_add :: "jsnum \<Rightarrow> jsnum \<Rightarrow> jsnum" where
  "js_add (Fin a) (Fin b) = Fin (a + b)"
| "js_add NaN _ = NaN"
| "js_add _ NaN = NaN"
| "js_add PInf NInf = NaN"
| "js_add NInf PInf = NaN"
| "js_add PInf _ = PInf"
| "js_add _ PInf = PInf"
| "js_add NInf _ = NInf"
| "js_add _ NInf = NInf"

fun js_neg :: "jsnum \<Rightarrow> jsnum" where
  "js_neg (Fin a) = Fin (- a)"
| "js_neg PInf = NInf"
| "js_neg NInf = PInf"
| "js_neg NaN = NaN"

definition js_sub :: "jsnum \<Rightarrow> jsnum \<Rightarrow> jsnum" where
  "js_sub a b = js_add a (js_neg b)"

fun js_mul :: "jsnum \<Rightarrow> jsnum \<Rightarrow> jsnum" where
  "js_mul (Fin a) (Fin b) = Fin (a * b)"
| "js_mul NaN _ = NaN"
| "js_mul _ NaN = NaN"
| "js_mul PInf (Fin b) = (if b = 0 then NaN else if 0 < b then PInf else NInf)"
| "js_mul NInf (Fin b) = (if b = 0 then NaN else if 0 < b then NInf else PInf)"
| "js_mul (Fin a) PInf = (if a = 0 then NaN else if 0 < a then PInf else NInf)"
| "js_mul (Fin a) NInf = (if a = 0 then NaN else if 0 < a then NInf else PInf)"
| "js_mul PInf PInf = PInf"
| "js_mul NInf NInf = PInf"
| "js_mul PInf NInf = NInf"
| "js_mul NInf PInf = NInf"

fun js_div :: "jsnum \<Rightarrow> jsnum \<Rightarrow> jsnum" where
  "js_div (Fin a) (Fin b) =
     (if b = 0 then (if a = 0 then NaN else if 0 < a then PInf else NInf)
      else Fin (a / b))"
| "js_div NaN _ = NaN"
| "js_div _ NaN = NaN"
| "js_div (Fin a) PInf = Fin 0"
| "js_div (Fin a) NInf = Fin 0"
| "js_div PInf (Fin b) = (if 0 \<le> b then PInf else NInf)"
| "js_div NInf (Fin b) = (if 0 \<le> b then NInf else PInf)"
| "js_div PInf PInf = NaN"
| "js_div PInf NInf = NaN"
| "js_div NInf PInf = NaN"
| "js_div NInf NInf = NaN"

text \<open>A count read from a payload; \<open>None\<close> is \<open>undefined\<close>, which arithmetic
  turns into \<open>NaN\<close>.\<close>

definition num_of_nat :: "nat \<Rightarrow> jsnum" where
  "num_of_nat n = Fin (of_nat n)"

definition to_num :: "nat option \<Rightarrow> jsnum" where
  "to_num v = (case v of None \<Rightarrow> NaN | Some n \<Rightarrow> num_of_nat n)"

definition rat_to_num :: "rat option \<Rightarrow> jsnum" where
  "rat_to_num v = (case v of None \<Rightarrow> NaN | Some q \<Rightarrow> Fin q)"

text \<open>Truthiness: \<open>0\<close>, \<open>NaN\<close>, \<open>undefined\<close> and the empty string are falsy.\<close>

fun truthy_num :: "jsnum \<Rightarrow> bool" where
  "truthy_num (Fin q) = (q \<noteq> 0)"
| "truthy_num NaN = False"
| "truthy_num PInf = True"
| "truthy_num NInf = True"

text \<open>\<open>a || d\<close> for an optional number and for an optional string.\<close>

definition or_num :: "jsnum option \<Rightarrow> jsnum \<Rightarrow> jsnum" where
  "or_num a d = (case a of None \<Rightarrow> d | Some x \<Rightarrow> if truthy_num x then x else d)"

definition or_str :: "string option \<Rightarrow> string \<Rightarrow> string" where
  "or_str a d = (case a of None \<Rightarrow> d | Some s \<Rightarrow> if s = [] then d else s)"


text \<open>Thrown values. Only \<open>message\<close> is ever read from them.\<close>

datatype js_error = Error string | TypeError string | SyntaxError string

fun message :: "js_error \<Rightarrow> string" where
  "message (Error m) = m"
| "message (TypeError m) = m"
| "message (SyntaxError m) = m"

text \<open>A computation that may throw (or a promise that may reject): \<open>Inl\<close> is the
  thrown value.\<close>

type_synonym 'a js_result = "js_error + 'a"

text \<open>Reading a property of \<open>undefined\<close>; the engine's wording is abbreviated.\<close>

definition undefined_read :: js_error where
  "undefined_read = TypeError ''Cannot read properties of undefined''"

subsection \<open>Strings\<close>

text \<open>\<open>String.prototype.trim\<close> on the one-byte code units a \<open>char\<close> holds:
  TAB, LF, VT, FF, CR, SPACE and NBSP.\<close>

definition is_whitespace :: "char \<Rightarrow> bool" where
  "is_whitespace c = (of_char c \<in> {9, 10, 11, 12, 13, 32, 160 :: nat})"

definition trim :: "string \<Rightarrow> string" where
  "trim s = rev (dropWhile is_whitespace (rev (dropWhile is_whitespace s)))"

definition startsWith :: "string \<Rightarrow> string \<Rightarrow> bool" where
  "startsWith s p = (take (length p) s = p)"

fun includes_str :: "string \<Rightarrow> string \<Rightarrow> bool" where
  "includes_str [] sub = (sub = [])"
| "includes_str (c # cs) sub = (startsWith (c # cs) sub \<or> includes_str cs sub)"

text \<open>\<open>Math.ceil(text.length / 4)\<close>, the estimate every adapter without native
  token counts uses.\<close>

definition estimateTokenCount :: "string \<Rightarrow> nat" where
  "estimateTokenCount text = (length text + 3) div 4"

subsection \<open>HTTP\<close>

text \<open>
  What one \<open>fetch\<close> can do: reject (network failure), answer with a non-success status
  (\<open>statusText\<close> and the body), or answer with a success status (the body). A body
  is the error \<open>response.json()\<close> throws on it, or what the adapter reads from the
  parsed value: \<open>'e\<close> from an error body, \<open>'p\<close> from a success body.

  Every field an adapter reads from a parsed body is either absent (\<open>None\<close>: the read
  gives \<open>undefined\<close>, and a read through it throws) or has the type of the
  provider's wire format (a string, a non-negative count). Values of another type are
  not modelled.
\<close>

datatype ('e, 'p) fetch_outcome =
    Rejected js_error
  | HttpNotOk string "'e js_result"
  | HttpOk "'p js_result"

subsection \<open>Settlement\<close>

text \<open>Values that belong to calls made one after the other, put in the order in which
  the calls settle: call \<open>i\<close> settles at \<open>tick i\<close>, and calls that settle at the
  same tick keep the order in which they were made.\<close>

definition settlement_order :: "(nat \<Rightarrow> nat) \<Rightarrow> 'a list \<Rightarrow> 'a list" where
  "settlement_order tick xs = map snd (sort_key (\<lambda>(i, x). tick i) (enumerate 0 xs))"

section \<open>The data model (model-config)\<close>

text \<open>
  Field names follow the source where they can: \<open>id\<close> is \<open>cfg_id\<close> on a
  configuration and \<open>resp_id\<close> on a response (whose \<open>text\<close> is
  \<open>resp_text\<close>), and the \<open>baseUrl\<close> and \<open>modelName\<close> of the Ollama
  configuration (required there, optional on the hosted one) carry the prefix
  \<open>ollama_\<close>. An optional field is an \<open>option\<close>. The text of a response is
  declared a string, but the OpenAI adapter stores \<open>undefined\<close> there when the reply
  has a message without content: \<open>resp_text\<close> is \<open>None\<close> then.
\<close>

record BaseModelConfig =
  cfg_id :: string
  name :: string
  enabled :: bool
  provider :: string
  temperature :: "jsnum option"
  maxTokens :: "jsnum option"

record APIEndpointConfig = BaseModelConfig +
  apiKey :: string
  baseUrl :: "string option"
  modelName :: "string option"
  organization :: "string option"
  projectId :: "string option"
  isProjectKey :: "bool option"

record OllamaEndpointConfig = BaseModelConfig +
  ollama_baseUrl :: string
  ollama_modelName :: string
  context_size :: "jsnum option"
  threads :: "jsnum option"

record GGUFModelConfig = BaseModelConfig +
  modelPath :: string
  serverPort :: "nat option"
  gguf_context_size :: "jsnum option"
  gguf_threads :: "jsnum option"

record ProviderConfigs =
  openai :: "APIEndpointConfig list"
  anthropic :: "APIEndpointConfig list"
  google :: "APIEndpointConfig list"
  ollama :: "OllamaEndpointConfig list"
  huggingface :: "APIEndpointConfig list"
  gguf :: "GGUFModelConfig list"

record ModelCapabilities =
  maxContextSize :: nat
  inputCostPer1k :: "rat option"
  outputCostPer1k :: "rat option"
  supportsStreaming :: bool
  supportsJsonMode :: "bool option"
  supportsFunctions :: "bool option"

record ModelMetrics =
  responseTime :: jsnum
  tokensPerSecond :: jsnum
  totalTokens :: "jsnum option"
  promptTokens :: "jsnum option"
  completionTokens :: "jsnum option"
  cost :: "jsnum option"
  contextSize :: "jsnum option"
  memoryUsed :: "jsnum option"

record ModelResponse =
  resp_id :: string
  resp_provider :: string
  model :: string
  resp_text :: "string option"
  metrics :: ModelMetrics
  error :: "string option"

record ComparisonResult =
  prompt :: string
  timestamp :: string
  responses :: "ModelResponse list"
  totalTime :: int
  errors :: "string list option"

text \<open>The metrics object of every adapter's \<open>catch\<close> branch:
  \<open>{ responseTime: 0, tokensPerSecond: 0 }\<close>.\<close>

definition zero_metrics :: ModelMetrics where
  "zero_metrics =
     \<lparr>responseTime = Fin 0, tokensPerSecond = Fin 0, totalTokens = None,
      promptTokens = None, completionTokens = None, cost = None, contextSize = None,
      memoryUsed = None\<rparr>"

text \<open>One timed call of an adapter: the two readings of \<open>Date.now()\<close> (milliseconds)
  around the request and what the request did. The second reading is taken only on the
  success path.\<close>

record ('e, 'p) exchange =
  started :: int
  finished :: int
  outcome :: "('e, 'p) fetch_outcome"

text \<open>A chat message \<open>{ role, content }\<close>.\<close>

type_synonym chat_message = "string \<times> string"

section \<open>OpenAIService\<close>

text \<open>The built-in table, in the order the source lists its keys (the order
  \<open>Object.keys\<close> returns). Keys inherited from \<open>Object.prototype\<close> are not
  modelled.\<close>

definition modelCapabilities :: "(string \<times> ModelCapabilities) list" where
  "modelCapabilities =
     [(''gpt-4'',
         \<lparr>maxContextSize = 8192, inputCostPer1k = Some (3 / 100),
          outputCostPer1k = Some (6 / 100), supportsStreaming = True,
          supportsJsonMode = Some True, supportsFunctions = Some True\<rparr>),
      (''gpt-4-turbo-preview'',
         \<lparr>maxContextSize = 128000, inputCostPer1k = Some (1 / 100),
          outputCostPer1k = Some (3 / 100), supportsStreaming = True,
          supportsJsonMode = Some True, supportsFunctions = Some True\<rparr>),
      (''gpt-3.5-turbo'',
         \<lparr>maxContextSize = 16385, inputCostPer1k = Some (5 / 10000),
          outputCostPer1k = Some (15 / 10000), supportsStreaming = True,
          supportsJsonMode = Some True, supportsFunctions = Some True\<rparr>)]"

text \<open>The constructor's \<open>this.baseUrl = config.baseUrl || 'https://api.openai.com/v1'\<close>.
  A service instance is its configuration; the rate-limit bookkeeping, which no result
  depends on, is left out.\<close>

definition OpenAIService_baseUrl :: "APIEndpointConfig \<Rightarrow> string" where
  "OpenAIService_baseUrl config = or_str (baseUrl config) ''https://api.openai.com/v1''"

definition OpenAIService_calculateCost :: "jsnum \<Rightarrow> jsnum \<Rightarrow> string \<Rightarrow> jsnum" where
  "OpenAIService_calculateCost promptTokens' completionTokens' model' =
     (case (case map_of modelCapabilities model' of
              None \<Rightarrow> map_of modelCapabilities ''gpt-4''
            | Some c \<Rightarrow> Some c) of
        None \<Rightarrow> NaN
      | Some capabilities \<Rightarrow>
          js_div
            (js_add
               (js_mul promptTokens' (rat_to_num (inputCostPer1k capabilities)))
               (js_mul completionTokens' (rat_to_num (outputCostPer1k capabilities))))
            (Fin 1000))"

subsection \<open>listModels\<close>

text \<open>The body of \<open>GET /models\<close> as the code reads it: \<open>data.data\<close>
  (\<open>None\<close> when absent) and each entry's \<open>id\<close> (\<open>None\<close> when absent).\<close>

type_synonym models_payload = "string option list option"

type_synonym models_outcome = "(unit, models_payload) fetch_outcome"

text \<open>The filter callback reads \<open>model.id.startsWith\<close> for every entry, so one
  entry without an id throws before anything is returned.\<close>

fun model_ids :: "string option list \<Rightarrow> string list js_result" where
  "model_ids [] = Inr []"
| "model_ids (None # ms) = Inl undefined_read"
| "model_ids (Some i # ms) =
     (case model_ids ms of Inl e \<Rightarrow> Inl e | Inr is \<Rightarrow> Inr (i # is))"

definition listModels_try :: "models_outcome \<Rightarrow> string list js_result" where
  "listModels_try out =
     (case out of
        Rejected e \<Rightarrow> Inl e
      | HttpNotOk st body \<Rightarrow> Inl (Error ''Failed to fetch models'')
      | HttpOk (Inl e) \<Rightarrow> Inl e
      | HttpOk (Inr None) \<Rightarrow> Inl undefined_read
      | HttpOk (Inr (Some ms)) \<Rightarrow>
          (case model_ids ms of
             Inl e \<Rightarrow> Inl e
           | Inr is \<Rightarrow>
               Inr (filter (\<lambda>i. startsWith i ''gpt-'' \<and> \<not> includes_str i ''instruct'') is)))"

text \<open>\<open>listModels\<close>: the \<open>try\<close> block above, and the \<open>catch\<close> that returns
  \<open>Object.keys(this.modelCapabilities)\<close>. The argument \<open>fetch\<close> answers the
  request to the given URL.\<close>

definition OpenAIService_listModels ::
  "APIEndpointConfig \<Rightarrow> (string \<Rightarrow> models_outcome) \<Rightarrow> string list js_result" where
  "OpenAIService_listModels config fetch =
     (case listModels_try (fetch (OpenAIService_baseUrl config @ ''/models'')) of
        Inl e \<Rightarrow> Inr (map fst modelCapabilities)
      | Inr ids \<Rightarrow> Inr ids)"

subsection \<open>generateResponse\<close>

record chat_request =
  req_model :: string
  req_messages :: "chat_message list"
  req_temperature :: jsnum
  req_max_tokens :: jsnum

text \<open>The counts of \<open>data.usage\<close>, each \<open>None\<close> when the usage object
  lacks it.\<close>

record openai_usage =
  prompt_tokens :: "nat option"
  completion_tokens :: "nat option"
  total_tokens :: "nat option"

text \<open>The success body as the code reads it. \<open>usage\<close> is \<open>data.usage\<close>,
  \<open>None\<close> when absent (reading a count through it throws). \<open>choice_message\<close> is
  \<open>data.choices[0].message\<close>: \<open>None\<close> when the path to the message does not
  exist (reading \<open>content\<close> through it throws), \<open>Some None\<close> for a message
  without content (the read gives \<open>undefined\<close> and nothing is thrown), and
  \<open>Some (Some s)\<close> for the content \<open>s\<close>.\<close>

record openai_completion =
  usage :: "openai_usage option"
  choice_message :: "string option option"

text \<open>What the code reads from an error body: \<open>error.error?.message\<close>.\<close>

type_synonym openai_exchange = "(string option, openai_completion) exchange"

definition OpenAIService_request :: "APIEndpointConfig \<Rightarrow> string \<Rightarrow> chat_request" where
  "OpenAIService_request config prompt' =
     \<lparr>req_model = or_str (modelName config) ''gpt-4'',
      req_messages = [(''user'', prompt')],
      req_temperature = or_num (temperature config) (Fin (7 / 10)),
      req_max_tokens = or_num (maxTokens config) (Fin 1000)\<rparr>"

definition OpenAIService_failure :: "APIEndpointConfig \<Rightarrow> js_error \<Rightarrow> ModelResponse" where
  "OpenAIService_failure config e =
     \<lparr>resp_id = cfg_id config, resp_provider = ''OpenAI'',
      model = or_str (modelName config) ''gpt-4'', resp_text = Some [],
      metrics = zero_metrics, error = Some (message e)\<rparr>"

text \<open>The \<open>try\<close> block of \<open>generateResponse\<close>.\<close>

definition OpenAIService_try ::
  "APIEndpointConfig \<Rightarrow> openai_exchange \<Rightarrow> ModelResponse js_result" where
  "OpenAIService_try config ex =
     (case outcome ex of
        Rejected e \<Rightarrow> Inl e
      | HttpNotOk st (Inl e) \<Rightarrow> Inl e
      | HttpNotOk st (Inr msg) \<Rightarrow> Inl (Error (or_str msg ''OpenAI API error''))
      | HttpOk (Inl e) \<Rightarrow> Inl e
      | HttpOk (Inr data) \<Rightarrow>
          (let responseTime' = finished ex - started ex in
           case usage data of
             None \<Rightarrow> Inl undefined_read
           | Some u \<Rightarrow>
               (let metrics' =
                  \<lparr>responseTime = Fin (of_int responseTime'),
                   tokensPerSecond =
                     js_div (to_num (completion_tokens u))
                       (js_div (Fin (of_int responseTime')) (Fin 1000)),
                   totalTokens = map_option num_of_nat (total_tokens u),
                   promptTokens = map_option num_of_nat (prompt_tokens u),
                   completionTokens = map_option num_of_nat (completion_tokens u),
                   cost = Some (OpenAIService_calculateCost (to_num (prompt_tokens u))
                            (to_num (completion_tokens u))
                            (or_str (modelName config) ''gpt-4'')),
                   contextSize =
                     map_option (\<lambda>c. num_of_nat (maxContextSize c))
                       (map_of modelCapabilities (or_str (modelName config) ''gpt-4'')),
                   memoryUsed = None\<rparr>
                in case choice_message data of
                     None \<Rightarrow> Inl undefined_read
                   | Some content \<Rightarrow>
                       Inr \<lparr>resp_id = cfg_id config, resp_provider = ''OpenAI'',
                            model = or_str (modelName config) ''gpt-4'', resp_text = content,
                            metrics = metrics', error = None\<rparr>)))"

text \<open>The request of \<open>generateResponse\<close>, answered by \<open>fetch\<close> for its URL and
  body.\<close>

definition openai_call ::
  "APIEndpointConfig \<Rightarrow> (string \<Rightarrow> chat_request \<Rightarrow> openai_exchange) \<Rightarrow> string
     \<Rightarrow> openai_exchange" where
  "openai_call config fetch prompt' =
     fetch (OpenAIService_baseUrl config @ ''/chat/completions'')
       (OpenAIService_request config prompt')"

text \<open>\<open>generateResponse\<close>: the \<open>catch\<close> turns whatever the \<open>try\<close> block
  threw into a response.\<close>

definition OpenAIService_generateResponse ::
  "APIEndpointConfig \<Rightarrow> (string \<Rightarrow> chat_request \<Rightarrow> openai_exchange) \<Rightarrow> string
     \<Rightarrow> ModelResponse js_result" where
  "OpenAIService_generateResponse config fetch prompt' =
     (case OpenAIService_try config (openai_call config fetch prompt') of
        Inl e \<Rightarrow> Inr (OpenAIService_failure config e)
      | Inr r \<Rightarrow> Inr r)"

section \<open>AnthropicService\<close>

definition prices :: "(string \<times> rat) list" where
  "prices =
     [(''claude-3-opus'', 15 / 1000), (''claude-3-sonnet'', 3 / 1000),
      (''claude-2.1'', 8 / 1000), (''claude-instant-1.2'', 8 / 10000)]"

definition AnthropicService_calculateCost :: "nat \<Rightarrow> string \<Rightarrow> jsnum" where
  "AnthropicService_calculateCost totalTokens' model' =
     (let pricePerToken =
        or_num (map_option Fin (map_of prices model'))
          (rat_to_num (map_of prices ''claude-3-opus''))
      in js_div (js_mul (num_of_nat totalTokens') pricePerToken) (Fin 1000))"

text \<open>The success body as the code reads it: \<open>data.content[0].text\<close>, \<open>None\<close>
  when it is not there (reading it, or its length, throws). From an error body the code
  reads \<open>error.error?.message\<close>.\<close>

type_synonym anthropic_exchange = "(string option, string option) exchange"

definition AnthropicService_request :: "APIEndpointConfig \<Rightarrow> string \<Rightarrow> chat_request" where
  "AnthropicService_request config prompt' =
     \<lparr>req_model = or_str (modelName config) ''claude-3-opus-20240229'',
      req_messages = [(''user'', prompt')],
      req_temperature = or_num (temperature config) (Fin (7 / 10)),
      req_max_tokens = or_num (maxTokens config) (Fin 1000)\<rparr>"

definition AnthropicService_failure :: "APIEndpointConfig \<Rightarrow> js_error \<Rightarrow> ModelResponse" where
  "AnthropicService_failure config e =
     \<lparr>resp_id = cfg_id config, resp_provider = ''Anthropic'',
      model = or_str (modelName config) ''claude-3-opus'', resp_text = Some [],
      metrics = zero_metrics, error = Some (message e)\<rparr>"

definition AnthropicService_try ::
  "APIEndpointConfig \<Rightarrow> string \<Rightarrow> anthropic_exchange \<Rightarrow> ModelResponse js_result" where
  "AnthropicService_try config prompt' ex =
     (case outcome ex of
        Rejected e \<Rightarrow> Inl e
      | HttpNotOk st (Inl e) \<Rightarrow> Inl e
      | HttpNotOk st (Inr msg) \<Rightarrow> Inl (Error (or_str msg ''Anthropic API error''))
      | HttpOk (Inl e) \<Rightarrow> Inl e
      | HttpOk (Inr None) \<Rightarrow> Inl undefined_read
      | HttpOk (Inr (Some content)) \<Rightarrow>
          (let responseTime' = finished ex - started ex;
               promptTokens' = estimateTokenCount prompt';
               completionTokens' = estimateTokenCount content;
               totalTokens' = promptTokens' + completionTokens';
               metrics' =
                 \<lparr>responseTime = Fin (of_int responseTime'),
                  tokensPerSecond =
                    js_div (num_of_nat completionTokens')
                      (js_div (Fin (of_int responseTime')) (Fin 1000)),
                  totalTokens = Some (num_of_nat totalTokens'),
                  promptTokens = Some (num_of_nat promptTokens'),
                  completionTokens = Some (num_of_nat completionTokens'),
                  cost = Some (AnthropicService_calculateCost totalTokens'
                           (or_str (modelName config) ''claude-3-opus'')),
                  contextSize = None, memoryUsed = None\<rparr>
           in Inr \<lparr>resp_id = cfg_id config, resp_provider = ''Anthropic'',
                   model = or_str (modelName config) ''claude-3-opus'',
                   resp_text = Some content, metrics = metrics', error = None\<rparr>))"

definition anthropic_call ::
  "APIEndpointConfig \<Rightarrow> (string \<Rightarrow> chat_request \<Rightarrow> anthropic_exchange) \<Rightarrow> string
     \<Rightarrow> anthropic_exchange" where
  "anthropic_call config fetch prompt' =
     fetch ''https://api.anthropic.com/v1/messages'' (AnthropicService_request config prompt')"

definition AnthropicService_generateResponse ::
  "APIEndpointConfig \<Rightarrow> (string \<Rightarrow> chat_request \<Rightarrow> anthropic_exchange) \<Rightarrow> string
     \<Rightarrow> ModelResponse js_result" where
  "AnthropicService_generateResponse config fetch prompt' =
     (case AnthropicService_try config prompt' (anthropic_call config fetch prompt') of
        Inl e \<Rightarrow> Inr (AnthropicService_failure config e)
      | Inr r \<Rightarrow> Inr r)"

section \<open>GGUFService\<close>

text \<open>The local server is addressed by its port, \<open>config.serverPort || 8080\<close>; the
  two requests go to \<open>/health\<close> and \<open>/completion\<close> on it.\<close>

definition GGUFService_serverPort :: "GGUFModelConfig \<Rightarrow> nat" where
  "GGUFService_serverPort config =
     (case serverPort config of None \<Rightarrow> 8080 | Some p \<Rightarrow> if p = 0 then 8080 else p)"

record gguf_request =
  gguf_prompt :: string
  gguf_temperature :: jsnum
  gguf_max_tokens :: jsnum

type_synonym health_outcome = "(unit, unit) fetch_outcome"

text \<open>The success body as the code reads it: \<open>data.content\<close>, \<open>None\<close> when
  absent; from an error body, \<open>error.error\<close>.\<close>

type_synonym gguf_exchange = "(string option, string option) exchange"

definition GGUFService_isServerRunning ::
  "GGUFModelConfig \<Rightarrow> (nat \<Rightarrow> health_outcome) \<Rightarrow> bool js_result" where
  "GGUFService_isServerRunning config health =
     (case health (GGUFService_serverPort config) of
        Rejected e \<Rightarrow> Inr False
      | HttpNotOk st body \<Rightarrow> Inr False
      | HttpOk body \<Rightarrow> Inr True)"

definition GGUFService_request :: "GGUFModelConfig \<Rightarrow> string \<Rightarrow> gguf_request" where
  "GGUFService_request config prompt' =
     \<lparr>gguf_prompt = prompt',
      gguf_temperature = or_num (temperature config) (Fin (7 / 10)),
      gguf_max_tokens = or_num (maxTokens config) (Fin 1000)\<rparr>"

definition GGUFService_failure :: "GGUFModelConfig \<Rightarrow> js_error \<Rightarrow> ModelResponse" where
  "GGUFService_failure config e =
     \<lparr>resp_id = cfg_id config, resp_provider = ''GGUF'', model = name config,
      resp_text = Some [], metrics = zero_metrics, error = Some (message e)\<rparr>"

definition gguf_call ::
  "GGUFModelConfig \<Rightarrow> (nat \<Rightarrow> gguf_request \<Rightarrow> gguf_exchange) \<Rightarrow> string \<Rightarrow> gguf_exchange" where
  "gguf_call config fetch prompt' =
     fetch (GGUFService_serverPort config) (GGUFService_request config prompt')"

definition GGUFService_try ::
  "GGUFModelConfig \<Rightarrow> (nat \<Rightarrow> health_outcome)
     \<Rightarrow> (nat \<Rightarrow> gguf_request \<Rightarrow> gguf_exchange) \<Rightarrow> string \<Rightarrow> ModelResponse js_result" where
  "GGUFService_try config health fetch prompt' =
     (case GGUFService_isServerRunning config health of
        Inl e \<Rightarrow> Inl e
      | Inr False \<Rightarrow> Inl (Error ''GGUF server is not running'')
      | Inr True \<Rightarrow>
          (let ex = gguf_call config fetch prompt'
           in case outcome ex of
                Rejected e \<Rightarrow> Inl e
              | HttpNotOk st (Inl e) \<Rightarrow> Inl e
              | HttpNotOk st (Inr msg) \<Rightarrow> Inl (Error (or_str msg ''GGUF API error''))
              | HttpOk (Inl e) \<Rightarrow> Inl e
              | HttpOk (Inr None) \<Rightarrow> Inl undefined_read
              | HttpOk (Inr (Some content)) \<Rightarrow>
                  (let responseTime' = finished ex - started ex;
                       completionTokens' = estimateTokenCount content;
                       promptTokens' = estimateTokenCount prompt';
                       metrics' =
                         \<lparr>responseTime = Fin (of_int responseTime'),
                          tokensPerSecond =
                            js_div (num_of_nat completionTokens')
                              (js_div (Fin (of_int responseTime')) (Fin 1000)),
                          totalTokens = Some (num_of_nat (promptTokens' + completionTokens')),
                          promptTokens = Some (num_of_nat promptTokens'),
                          completionTokens = Some (num_of_nat completionTokens'),
                          cost = None, contextSize = None, memoryUsed = None\<rparr>
                   in Inr \<lparr>resp_id = cfg_id config, resp_provider = ''GGUF'',
                           model = name config, resp_text = Some content,
                           metrics = metrics',
                           error = None\<rparr>)))"

definition GGUFService_generateResponse ::
  "GGUFModelConfig \<Rightarrow> (nat \<Rightarrow> health_outcome)
     \<Rightarrow> (nat \<Rightarrow> gguf_request \<Rightarrow> gguf_exchange) \<Rightarrow> string \<Rightarrow> ModelResponse js_result" where
  "GGUFService_generateResponse config health fetch prompt' =
     (case GGUFService_try config health fetch prompt' of
        Inl e \<Rightarrow> Inr (GGUFService_failure config e)
      | Inr r \<Rightarrow> Inr r)"

section \<open>OllamaService\<close>

text \<open>The statistics of an Ollama reply; every duration is in nanoseconds, and a field
  the server leaves out is \<open>None\<close>.\<close>

record OllamaStats =
  total_duration :: "nat option"
  load_duration :: "nat option"
  sample_count :: "nat option"
  sample_duration :: "nat option"
  prompt_eval_count :: "nat option"
  prompt_eval_duration :: "nat option"
  eval_count :: "nat option"
  eval_duration :: "nat option"

definition truthy_count :: "nat option \<Rightarrow> bool" where
  "truthy_count v = (case v of None \<Rightarrow> False | Some n \<Rightarrow> n \<noteq> 0)"

text \<open>\<open>calculateMetrics\<close>. The method is private and no line of the class calls
  it: the metrics the program shows come from \<open>generateCompletion\<close> below. The table
  \<open>modelInfo\<close> is looked up in the source but the value is not used.\<close>

definition OllamaService_calculateMetrics ::
  "OllamaEndpointConfig \<Rightarrow> OllamaStats \<Rightarrow> jsnum \<Rightarrow> string \<Rightarrow> ModelMetrics" where
  "OllamaService_calculateMetrics config stats responseTime' text' =
     (let completionTokens' = estimateTokenCount text';
          evalTokensPerSecond =
            (if truthy_count (eval_count stats) \<and> truthy_count (eval_duration stats)
             then js_div (to_num (eval_count stats))
                    (js_div (to_num (eval_duration stats)) (Fin 1000))
             else js_div (num_of_nat completionTokens') (js_div responseTime' (Fin 1000)));
          contextSize' = or_num (context_size config) (Fin 4096)
      in \<lparr>responseTime = responseTime',
          tokensPerSecond = evalTokensPerSecond,
          totalTokens = map_option num_of_nat (prompt_eval_count stats),
          promptTokens =
            (if truthy_count (prompt_eval_count stats)
             then Some (js_sub (to_num (prompt_eval_count stats))
                    (if truthy_count (eval_count stats) then to_num (eval_count stats)
                     else Fin 0))
             else None),
          completionTokens = map_option num_of_nat (eval_count stats),
          cost = None,
          contextSize = Some contextSize',
          memoryUsed =
            (if truthy_count (total_duration stats)
             then Some (js_mul (js_mul (to_num (total_duration stats)) (Fin 1024)) (Fin 1024))
             else None)\<rparr>)"

definition OllamaService_getApiUrl :: "OllamaEndpointConfig \<Rightarrow> string \<Rightarrow> string" where
  "OllamaService_getApiUrl config endpoint =
     (if ollama_baseUrl config \<noteq> [] \<and> ollama_baseUrl config \<noteq> ''http://localhost:11434''
      then ollama_baseUrl config @ ''/api/'' @ endpoint
      else ''/api/ollama/'' @ endpoint)"

record ollama_options =
  opt_temperature :: jsnum
  num_predict :: "jsnum option"
  num_ctx :: "jsnum option"
  num_thread :: "jsnum option"

record ollama_request =
  ollama_model :: string
  ollama_prompt :: string
  stream :: bool
  options :: ollama_options

text \<open>What \<open>generateCompletion\<close> returns.\<close>

record ollama_completion =
  oc_responseTime :: jsnum
  oc_tokensPerSecond :: jsnum
  oc_totalTokens :: jsnum
  oc_promptTokens :: "nat option"
  oc_completionTokens :: "nat option"
  oc_processingTime :: jsnum

text \<open>From an error body the code reads \<open>error.error\<close>; a success body is the
  statistics.\<close>

type_synonym ollama_outcome = "(string option, OllamaStats) fetch_outcome"

definition OllamaService_request :: "OllamaEndpointConfig \<Rightarrow> string \<Rightarrow> ollama_request" where
  "OllamaService_request config prompt' =
     \<lparr>ollama_model = ollama_modelName config, ollama_prompt = prompt', stream = False,
      options =
        \<lparr>opt_temperature = or_num (temperature config) (Fin (7 / 10)),
         num_predict = maxTokens config, num_ctx = context_size config,
         num_thread = threads config\<rparr>\<rparr>"

definition ollama_call ::
  "OllamaEndpointConfig \<Rightarrow> (string \<Rightarrow> ollama_request \<Rightarrow> ollama_outcome) \<Rightarrow> string
     \<Rightarrow> ollama_outcome" where
  "ollama_call config fetch prompt' =
     fetch (OllamaService_getApiUrl config ''generate'') (OllamaService_request config prompt')"

text \<open>\<open>generateCompletion\<close>. A body of the error reply that is not JSON is replaced by
  \<open>{ error: response.statusText }\<close>; the \<open>catch\<close> logs and throws the error
  again, so every failure leaves the function as a rejection.\<close>

definition OllamaService_generateCompletion ::
  "OllamaEndpointConfig \<Rightarrow> (string \<Rightarrow> ollama_request \<Rightarrow> ollama_outcome) \<Rightarrow> string
     \<Rightarrow> ollama_completion js_result" where
  "OllamaService_generateCompletion config fetch prompt' =
     (case ollama_call config fetch prompt' of
        Rejected e \<Rightarrow> Inl e
      | HttpNotOk st (Inl e) \<Rightarrow> Inl (Error (or_str (Some st) ''Ollama API error''))
      | HttpNotOk st (Inr msg) \<Rightarrow> Inl (Error (or_str msg ''Ollama API error''))
      | HttpOk (Inl e) \<Rightarrow> Inl e
      | HttpOk (Inr data) \<Rightarrow>
          (let responseTime' = js_div (to_num (total_duration data)) (Fin 1000000);
               totalTokens' = js_add (to_num (prompt_eval_count data)) (to_num (eval_count data));
               totalProcessingTime =
                 js_div (js_add (to_num (prompt_eval_duration data)) (to_num (eval_duration data)))
                   (Fin 1000000000);
               tokensPerSecond' = js_div totalTokens' totalProcessingTime
           in Inr \<lparr>oc_responseTime = responseTime',
                   oc_tokensPerSecond = tokensPerSecond',
                   oc_totalTokens = totalTokens',
                   oc_promptTokens = prompt_eval_count data,
                   oc_completionTokens = eval_count data,
                   oc_processingTime = totalProcessingTime\<rparr>))"

text \<open>The body of \<open>GET tags\<close> as the code reads it: the names of the entries of
  \<open>data.models\<close> (each \<open>None\<close> when the entry has no name), \<open>None\<close> when
  \<open>models\<close> is absent.\<close>

type_synonym tags_outcome = "(unit, string option list option) fetch_outcome"

definition OllamaService_listModels ::
  "OllamaEndpointConfig \<Rightarrow> (string \<Rightarrow> tags_outcome) \<Rightarrow> string option list js_result" where
  "OllamaService_listModels config fetch =
     (case fetch (OllamaService_getApiUrl config ''tags'') of
        Rejected e \<Rightarrow> Inr []
      | HttpNotOk st body \<Rightarrow> Inr []
      | HttpOk (Inl e) \<Rightarrow> Inr []
      | HttpOk (Inr None) \<Rightarrow> Inr []
      | HttpOk (Inr (Some names)) \<Rightarrow> Inr names)"

text \<open>\<open>OllamaService\<close> declares no \<open>generateResponse\<close>. The orchestrator calls
  \<open>service.generateResponse(prompt)\<close> on it all the same; calling the missing member
  throws a \<open>TypeError\<close> before any request is made.\<close>

definition OllamaService_generateResponse ::
  "OllamaEndpointConfig \<Rightarrow> string \<Rightarrow> ModelResponse js_result" where
  "OllamaService_generateResponse config prompt' =
     Inl (TypeError ''service.generateResponse is not a function'')"

section \<open>ComparisonService\<close>

text \<open>
  The network as one call sees it: each field answers the requests of one adapter. The
  orchestrator's world gives every call its own network (calls are numbered in the order
  they are made), the tick at which the promise of call \<open>i\<close> settles, and the clock
  readings of \<open>compareModels\<close> itself.
\<close>

record network =
  openai_chat :: "string \<Rightarrow> chat_request \<Rightarrow> openai_exchange"
  anthropic_messages :: "string \<Rightarrow> chat_request \<Rightarrow> anthropic_exchange"
  gguf_health :: "nat \<Rightarrow> health_outcome"
  gguf_completion :: "nat \<Rightarrow> gguf_request \<Rightarrow> gguf_exchange"
  ollama_generate :: "string \<Rightarrow> ollama_request \<Rightarrow> ollama_outcome"
  ollama_tags :: "string \<Rightarrow> tags_outcome"

record world =
  net :: "nat \<Rightarrow> network"
  settled :: "nat \<Rightarrow> nat"
  clock_start :: int
  clock_end :: int
  clock_iso :: string

text \<open>The singleton's state. A service instance is the configuration it was built
  from.\<close>

record ComparisonService =
  configs :: ProviderConfigs
  openai_services :: "APIEndpointConfig list"
  anthropic_services :: "APIEndpointConfig list"
  ollama_services :: "OllamaEndpointConfig list"
  gguf_services :: "GGUFModelConfig list"

definition updateConfigs :: "ComparisonService \<Rightarrow> ProviderConfigs \<Rightarrow> ComparisonService" where
  "updateConfigs this configs' =
     \<lparr>configs = configs',
      openai_services = filter enabled (openai configs'),
      anthropic_services = filter enabled (anthropic configs'),
      ollama_services = filter enabled (ollama configs'),
      gguf_services = filter enabled (gguf configs')\<rparr>"

text \<open>The four loops of \<open>compareModels\<close>: the calls in the order they are pushed.\<close>

definition launch ::
  "ComparisonService \<Rightarrow> (network \<Rightarrow> string \<Rightarrow> ModelResponse js_result) list" where
  "launch this =
     map (\<lambda>s n. OpenAIService_generateResponse s (openai_chat n)) (openai_services this) @
     map (\<lambda>s n. AnthropicService_generateResponse s (anthropic_messages n))
       (anthropic_services this) @
     map (\<lambda>s n. OllamaService_generateResponse s) (ollama_services this) @
     map (\<lambda>s n. GGUFService_generateResponse s (gguf_health n) (gguf_completion n))
       (gguf_services this)"

text \<open>\<open>Promise.all\<close>: the values in the order of the promises given, whatever the
  order they settle in; the first failure in that order when a call threw.\<close>

fun await_all :: "'a js_result list \<Rightarrow> 'a list js_result" where
  "await_all [] = Inr []"
| "await_all (Inl e # ps) = Inl e"
| "await_all (Inr x # ps) =
     (case await_all ps of Inl e \<Rightarrow> Inl e | Inr xs \<Rightarrow> Inr (x # xs))"

definition has_error :: "ModelResponse \<Rightarrow> bool" where
  "has_error response = (case error response of None \<Rightarrow> False | Some m \<Rightarrow> m \<noteq> [])"

definition error_line :: "ModelResponse \<Rightarrow> string" where
  "error_line response =
     resp_provider response @ '' ('' @ model response @ ''): '' @ or_str (error response) []"

definition compareModels ::
  "ComparisonService \<Rightarrow> world \<Rightarrow> string \<Rightarrow> ComparisonResult js_result" where
  "compareModels this w prompt' =
     (case await_all (map (\<lambda>(i, call). call (net w i) prompt') (enumerate 0 (launch this))) of
        Inl e \<Rightarrow> Inl e
      | Inr responses' \<Rightarrow>
          (let errors' = map error_line (filter has_error responses')
           in Inr \<lparr>prompt = prompt', timestamp = clock_iso w, responses = responses',
                   totalTime = clock_end w - clock_start w,
                   errors = (if 0 < length errors' then Some errors' else None)\<rparr>))"

text \<open>\<open>validateConnections\<close>: one probe per service, each inside its own
  \<open>try\<close>/\<open>catch\<close> (a probe that throws counts as \<open>false\<close>), awaited one after
  the other and stored under the key the template string builds.\<close>

definition probe_openai :: "APIEndpointConfig \<Rightarrow> network \<Rightarrow> bool" where
  "probe_openai s n =
     (case OpenAIService_generateResponse s (openai_chat n) ''test'' of
        Inl e \<Rightarrow> False
      | Inr response \<Rightarrow> \<not> has_error response)"

definition probe_anthropic :: "APIEndpointConfig \<Rightarrow> network \<Rightarrow> bool" where
  "probe_anthropic s n =
     (case AnthropicService_generateResponse s (anthropic_messages n) ''test'' of
        Inl e \<Rightarrow> False
      | Inr response \<Rightarrow> \<not> has_error response)"

definition probe_ollama :: "OllamaEndpointConfig \<Rightarrow> network \<Rightarrow> bool" where
  "probe_ollama s n =
     (case OllamaService_listModels s (ollama_tags n) of
        Inl e \<Rightarrow> False
      | Inr models \<Rightarrow> 0 < length models)"

definition probe_gguf :: "GGUFModelConfig \<Rightarrow> network \<Rightarrow> bool" where
  "probe_gguf s n =
     (case GGUFService_isServerRunning s (gguf_health n) of
        Inl e \<Rightarrow> False
      | Inr isRunning \<Rightarrow> isRunning)"

definition probes :: "ComparisonService \<Rightarrow> (string \<times> (network \<Rightarrow> bool)) list" where
  "probes this =
     map (\<lambda>s. (''openai-'' @ cfg_id s, probe_openai s)) (openai_services this) @
     map (\<lambda>s. (''anthropic-'' @ cfg_id s, probe_anthropic s)) (anthropic_services this) @
     map (\<lambda>s. (''ollama-'' @ cfg_id s, probe_ollama s)) (ollama_services this) @
     map (\<lambda>s. (''gguf-'' @ cfg_id s, probe_gguf s)) (gguf_services this)"

definition validateConnections ::
  "ComparisonService \<Rightarrow> world \<Rightarrow> (string \<rightharpoonup> bool) js_result" where
  "validateConnections this w =
     Inr (fold (\<lambda>(i, key, probe) results. results(key \<mapsto> probe (net w i)))
            (enumerate 0 (probes this)) Map.empty)"

text \<open>What \<open>validateConnections\<close> stores, in the order it stores it: each key with
  the outcome of its probe on the network of its call.\<close>

definition stored ::
  "(nat \<Rightarrow> network) \<Rightarrow> nat \<Rightarrow> (string \<times> (network \<Rightarrow> bool)) list
     \<Rightarrow> (string \<times> bool) list" where
  "stored nets n ps = map (\<lambda>(i, key, probe). (key, probe (nets i))) (enumerate n ps)"

section \<open>ComparisonDashboard\<close>

text \<open>The dashboard reads only the \<open>openai\<close> and \<open>ollama\<close> lists of the stored
  configuration. An entry of the first list has one of the hosted provider kinds, so
  \<open>model.provider === 'ollama'\<close> can hold for an entry of the second list only.\<close>

datatype enabled_model = OpenAIModel APIEndpointConfig | OllamaModel OllamaEndpointConfig

fun model_id :: "enabled_model \<Rightarrow> string" where
  "model_id (OpenAIModel m) = cfg_id m"
| "model_id (OllamaModel m) = cfg_id m"

definition enabledModels :: "ProviderConfigs \<Rightarrow> enabled_model list" where
  "enabledModels configs' =
     map OpenAIModel (filter enabled (openai configs')) @
     map OllamaModel (filter enabled (ollama configs'))"

record toast =
  title :: string
  description :: string

record dashboard_metrics =
  modelId :: string
  dm_modelName :: string
  dm_timestamp :: int
  dm_responseTime :: jsnum
  dm_tokensPerSecond :: jsnum
  dm_totalTokens :: jsnum
  dm_promptTokens :: nat
  dm_completionTokens :: nat
  dm_processingTime :: jsnum

text \<open>What one run of \<open>handleCompare\<close> does: the toasts it shows, the models it
  sent a request for (in the order of the requests), and the results it adds to the
  performance history.\<close>

record compare_run =
  toasts :: "toast list"
  requested :: "string list"
  results :: "dashboard_metrics list"

definition count_or_zero :: "nat option \<Rightarrow> nat" where
  "count_or_zero v = (case v of None \<Rightarrow> 0 | Some n \<Rightarrow> n)"

text \<open>The callback mapped over \<open>selectedModels\<close>, for the model selected at
  position \<open>i\<close>; \<open>now\<close> is the reading of \<open>Date.now()\<close> when its result is
  built.\<close>

definition process_model ::
  "ProviderConfigs \<Rightarrow> network \<Rightarrow> int \<Rightarrow> string \<Rightarrow> string \<Rightarrow> compare_run" where
  "process_model configs' n now prompt' modelId' =
     (case find (\<lambda>m. model_id m = modelId') (enabledModels configs') of
        None \<Rightarrow> \<lparr>toasts = [], requested = [], results = []\<rparr>
      | Some (OpenAIModel m) \<Rightarrow> \<lparr>toasts = [], requested = [], results = []\<rparr>
      | Some (OllamaModel m) \<Rightarrow>
          (if provider m = ''ollama'' then
             (case OllamaService_generateCompletion m (ollama_generate n) prompt' of
                Inl e \<Rightarrow>
                  \<lparr>toasts = [\<lparr>title = ''Error with '' @ name m, description = message e\<rparr>],
                   requested = [modelId'], results = []\<rparr>
              | Inr metrics' \<Rightarrow>
                  \<lparr>toasts = [], requested = [modelId'],
                   results =
                     [\<lparr>modelId = modelId', dm_modelName = name m, dm_timestamp = now,
                       dm_responseTime = oc_responseTime metrics',
                       dm_tokensPerSecond = oc_tokensPerSecond metrics',
                       dm_totalTokens = oc_totalTokens metrics',
                       dm_promptTokens = count_or_zero (oc_promptTokens metrics'),
                       dm_completionTokens = count_or_zero (oc_completionTokens metrics'),
                       dm_processingTime = oc_processingTime metrics'\<rparr>]\<rparr>)
           else \<lparr>toasts = [], requested = [], results = []\<rparr>))"

text \<open>\<open>handleCompare\<close>. The callbacks run concurrently: the toast of a model whose
  call failed is shown when that call settles (\<open>tick i\<close> for the model selected at
  position \<open>i\<close>), the results are collected by \<open>Promise.all\<close> in selection order,
  and the toast of a run without results comes last.\<close>

definition handleCompare ::
  "ProviderConfigs \<Rightarrow> (nat \<Rightarrow> network) \<Rightarrow> (nat \<Rightarrow> int) \<Rightarrow> (nat \<Rightarrow> nat) \<Rightarrow> string
     \<Rightarrow> string list \<Rightarrow> compare_run" where
  "handleCompare configs' nets clock tick prompt' selectedModels =
     (if trim prompt' = [] then
        \<lparr>toasts = [\<lparr>title = ''Error'', description = ''Please enter a prompt to compare''\<rparr>],
         requested = [], results = []\<rparr>
      else if length selectedModels = 0 then
        \<lparr>toasts = [\<lparr>title = ''Error'',
                    description = ''Please select at least one model to compare''\<rparr>],
         requested = [], results = []\<rparr>
      else
        (let runs = map (\<lambda>(i, modelId'). process_model configs' (nets i) (clock i) prompt' modelId')
                      (enumerate 0 selectedModels);
             results' = concat (map results runs)
         in \<lparr>toasts = concat (map toasts (settlement_order tick runs)) @
                (if length results' = 0
                 then [\<lparr>title = ''Error'', description = ''No successful model responses''\<rparr>]
                 else []),
             requested = concat (map requested runs),
             results = results'\<rparr>))"

text \<open>What the page renders. With no enabled model it returns the card
  \<open>No models configured for comparison\<close>; only otherwise does it render the form
  with the checkboxes of the enabled models and the Compare button. The configuration
  is read once and never changed by the page, so \<open>handleCompare\<close> runs only from
  the form.\<close>

datatype dashboard_view = NoModelsConfigured | CompareForm

definition ComparisonDashboard_view :: "ProviderConfigs \<Rightarrow> dashboard_view" where
  "ComparisonDashboard_view configs' =
     (if length (enabledModels configs') = 0 then NoModelsConfigured else CompareForm)"

text \<open>A click on the Compare button, where there is one.\<close>

definition clickCompare ::
  "ProviderConfigs \<Rightarrow> (nat \<Rightarrow> network) \<Rightarrow> (nat \<Rightarrow> int) \<Rightarrow> (nat \<Rightarrow> nat) \<Rightarrow> string
     \<Rightarrow> string list \<Rightarrow> compare_run option" where
  "clickCompare configs' nets clock tick prompt' selectedModels =
     (case ComparisonDashboard_view configs' of
        NoModelsConfigured \<Rightarrow> None
      | CompareForm \<Rightarrow> Some (handleCompare configs' nets clock tick prompt' selectedModels))"

section \<open>Failed calls and the notions of the specification\<close>

text \<open>A failed call: a network failure, a non-success status, a body that is not
  JSON, or a body on which a read of the adapter throws (for OpenAI: no usage object, or
  no path to the message; for Anthropic and GGUF: no text).\<close>

definition openai_failed :: "openai_exchange \<Rightarrow> bool" where
  "openai_failed ex =
     (case outcome ex of
        Rejected e \<Rightarrow> True
      | HttpNotOk st body \<Rightarrow> True
      | HttpOk (Inl e) \<Rightarrow> True
      | HttpOk (Inr data) \<Rightarrow> usage data = None \<or> choice_message data = None)"

definition text_failed :: "(string option, string option) exchange \<Rightarrow> bool" where
  "text_failed ex =
     (case outcome ex of
        Rejected e \<Rightarrow> True
      | HttpNotOk st body \<Rightarrow> True
      | HttpOk (Inl e) \<Rightarrow> True
      | HttpOk (Inr content) \<Rightarrow> content = None)"

definition health_ok :: "health_outcome \<Rightarrow> bool" where
  "health_ok out = (case out of HttpOk body \<Rightarrow> True | _ \<Rightarrow> False)"

definition ollama_failed :: "ollama_outcome \<Rightarrow> bool" where
  "ollama_failed out = (case out of HttpOk (Inr data) \<Rightarrow> False | _ \<Rightarrow> True)"

text \<open>Every error an outcome carries has a message. The errors the engine raises (a
  request that cannot be sent, a body that does not parse) have one; the model leaves
  their wording open, so this is said where it matters.\<close>

definition errors_have_messages :: "('e, 'p) fetch_outcome \<Rightarrow> bool" where
  "errors_have_messages out =
     (case out of
        Rejected e \<Rightarrow> message e \<noteq> []
      | HttpNotOk st (Inl e) \<Rightarrow> message e \<noteq> []
      | HttpNotOk st (Inr body) \<Rightarrow> True
      | HttpOk (Inl e) \<Rightarrow> message e \<noteq> []
      | HttpOk (Inr body) \<Rightarrow> True)"

text \<open>The call of a service fails, with a message, on the network it sees.\<close>

definition openai_fails :: "APIEndpointConfig \<Rightarrow> network \<Rightarrow> string \<Rightarrow> bool" where
  "openai_fails c n p =
     (openai_failed (openai_call c (openai_chat n) p) \<and>
      errors_have_messages (outcome (openai_call c (openai_chat n) p)))"

definition anthropic_fails :: "APIEndpointConfig \<Rightarrow> network \<Rightarrow> string \<Rightarrow> bool" where
  "anthropic_fails c n p =
     (text_failed (anthropic_call c (anthropic_messages n) p) \<and>
      errors_have_messages (outcome (anthropic_call c (anthropic_messages n) p)))"

definition gguf_fails :: "GGUFModelConfig \<Rightarrow> network \<Rightarrow> string \<Rightarrow> bool" where
  "gguf_fails c n p =
     (\<not> health_ok (gguf_health n (GGUFService_serverPort c)) \<or>
      text_failed (gguf_call c (gguf_completion n) p) \<and>
      errors_have_messages (outcome (gguf_call c (gguf_completion n) p)))"

text \<open>The response every adapter's \<open>catch\<close> builds, up to the message.\<close>

definition failure_response :: "string \<Rightarrow> string \<Rightarrow> string \<Rightarrow> string \<Rightarrow> ModelResponse" where
  "failure_response i kind model' msg =
     \<lparr>resp_id = i, resp_provider = kind, model = model', resp_text = Some [],
      metrics = zero_metrics, error = Some msg\<rparr>"

text \<open>The replies on which \<open>listModels\<close> cannot produce a listing: a network
  failure, a non-success status, a body that is not JSON, a body without \<open>data\<close>,
  an entry without \<open>id\<close>.\<close>

fun listModels_failed :: "models_outcome \<Rightarrow> bool" where
  "listModels_failed (Rejected e) = True"
| "listModels_failed (HttpNotOk st body) = True"
| "listModels_failed (HttpOk (Inl e)) = True"
| "listModels_failed (HttpOk (Inr None)) = True"
| "listModels_failed (HttpOk (Inr (Some ms))) = (None \<in> set ms)"

text \<open>A falsy optional number: absent, zero or \<open>NaN\<close>.\<close>

definition falsy :: "jsnum option \<Rightarrow> bool" where
  "falsy v = (case v of None \<Rightarrow> True | Some x \<Rightarrow> \<not> truthy_num x)"

text \<open>The number of enabled configurations of a configuration set, over all six
  provider kinds.\<close>

definition enabled_count :: "ProviderConfigs \<Rightarrow> nat" where
  "enabled_count configs' =
     length (filter enabled (openai configs')) + length (filter enabled (anthropic configs')) +
     length (filter enabled (google configs')) + length (filter enabled (ollama configs')) +
     length (filter enabled (huggingface configs')) + length (filter enabled (gguf configs'))"

section \<open>Concrete inputs\<close>

text \<open>The state the constructor of \<open>ComparisonService\<close> builds.\<close>

definition no_configs :: ProviderConfigs where
  "no_configs =
     \<lparr>openai = [], anthropic = [], google = [], ollama = [], huggingface = [], gguf = []\<rparr>"

definition ComparisonService_new :: ComparisonService where
  "ComparisonService_new =
     \<lparr>configs = no_configs, openai_services = [], anthropic_services = [],
      ollama_services = [], gguf_services = []\<rparr>"

text \<open>Configurations with every optional field absent.\<close>

definition api_config :: "string \<Rightarrow> string \<Rightarrow> bool \<Rightarrow> APIEndpointConfig" where
  "api_config i kind on =
     \<lparr>cfg_id = i, name = i, enabled = on, provider = kind, temperature = None,
      maxTokens = None, apiKey = ''key'', baseUrl = None, modelName = None,
      organization = None, projectId = None, isProjectKey = None\<rparr>"

definition ollama_config :: "string \<Rightarrow> bool \<Rightarrow> OllamaEndpointConfig" where
  "ollama_config i on =
     \<lparr>cfg_id = i, name = i, enabled = on, provider = ''ollama'', temperature = None,
      maxTokens = None, ollama_baseUrl = ''http://localhost:11434'',
      ollama_modelName = ''llama2'', context_size = None, threads = None\<rparr>"

definition gguf_config :: "string \<Rightarrow> bool \<Rightarrow> GGUFModelConfig" where
  "gguf_config i on =
     \<lparr>cfg_id = i, name = i, enabled = on, provider = ''gguf'', temperature = None,
      maxTokens = None, modelPath = ''model.gguf'', serverPort = None,
      gguf_context_size = None, gguf_threads = None\<rparr>"

text \<open>A network on which every request fails the way \<open>fetch\<close> does when the host
  cannot be reached, and a world in which every call sees that network.\<close>

definition unreachable :: js_error where
  "unreachable = TypeError ''Failed to fetch''"

definition offline :: network where
  "offline =
     \<lparr>openai_chat = (\<lambda>url body. \<lparr>started = 0, finished = 0, outcome = Rejected unreachable\<rparr>),
      anthropic_messages =
        (\<lambda>url body. \<lparr>started = 0, finished = 0, outcome = Rejected unreachable\<rparr>),
      gguf_health = (\<lambda>port. Rejected unreachable),
      gguf_completion =
        (\<lambda>port body. \<lparr>started = 0, finished = 0, outcome = Rejected unreachable\<rparr>),
      ollama_generate = (\<lambda>url body. Rejected unreachable),
      ollama_tags = (\<lambda>url. Rejected unreachable)\<rparr>"

definition offline_world :: world where
  "offline_world =
     \<lparr>net = (\<lambda>i. offline), settled = (\<lambda>i. i), clock_start = 1000, clock_end = 1005,
      clock_iso = ''2024-03-01T00:00:00.000Z''\<rparr>"

definition hf_only :: ProviderConfigs where
  "hf_only = no_configs\<lparr>huggingface := [api_config ''h'' ''huggingface'' True]\<rparr>"

definition two_openai :: ProviderConfigs where
  "two_openai =
     no_configs\<lparr>openai := [api_config ''a'' ''openai'' True, api_config ''b'' ''openai'' True]\<rparr>"

definition mixed_configs :: ProviderConfigs where
  "mixed_configs =
     no_configs
       \<lparr>openai := [api_config ''a'' ''openai'' True, api_config ''b'' ''openai'' False],
        huggingface := [api_config ''h'' ''huggingface'' True],
        gguf := [gguf_config ''g'' True]\<rparr>"

text \<open>A world in which the second call settles before the first.\<close>

definition late_first :: world where
  "late_first = offline_world\<lparr>settled := (\<lambda>i. if i = 0 then 50 else 10)\<rparr>"

text \<open>A network that answers every request within the same millisecond: an OpenAI
  reply with no completion tokens, and four characters of text from the others.\<close>

definition instant :: network where
  "instant =
     \<lparr>openai_chat =
        (\<lambda>url body.
           \<lparr>started = 1000, finished = 1000,
            outcome =
              HttpOk (Inr \<lparr>usage = Some \<lparr>prompt_tokens = Some 1, completion_tokens = Some 0,
                                        total_tokens = Some 1\<rparr>,
                           choice_message = Some (Some [])\<rparr>)\<rparr>),
      anthropic_messages =
        (\<lambda>url body. \<lparr>started = 1000, finished = 1000, outcome = HttpOk (Inr (Some ''abcd''))\<rparr>),
      gguf_health = (\<lambda>port. HttpOk (Inr ())),
      gguf_completion =
        (\<lambda>port body. \<lparr>started = 1000, finished = 1000, outcome = HttpOk (Inr (Some ''abcd''))\<rparr>),
      ollama_generate = (\<lambda>url body. Rejected unreachable),
      ollama_tags = (\<lambda>url. HttpOk (Inr (Some [])))\<rparr>"

text \<open>Ollama statistics: ten tokens evaluated in two seconds, twenty prompt tokens in
  two more.\<close>

definition ten_in_two_seconds :: OllamaStats where
  "ten_in_two_seconds =
     \<lparr>total_duration = Some 5000000000, load_duration = Some 1000000000,
      sample_count = None, sample_duration = None,
      prompt_eval_count = Some 20, prompt_eval_duration = Some 2000000000,
      eval_count = Some 10, eval_duration = Some 2000000000\<rparr>"

definition ollama_only :: ProviderConfigs where
  "ollama_only = no_configs\<lparr>ollama := [ollama_config ''o'' True]\<rparr>"

definition one_openai :: ProviderConfigs where
  "one_openai = no_configs\<lparr>openai := [api_config ''a'' ''openai'' True]\<rparr>"

text \<open>A network that answers after a while: an OpenAI reply with fifty completion tokens
  after two seconds, four characters of text from the others after half a second, and
  an Ollama server with its statistics.\<close>

definition steady :: network where
  "steady =
     \<lparr>openai_chat =
        (\<lambda>url body.
           \<lparr>started = 0, finished = 2000,
            outcome =
              HttpOk (Inr \<lparr>usage = Some \<lparr>prompt_tokens = Some 5, completion_tokens = Some 50,
                                        total_tokens = Some 55\<rparr>,
                           choice_message = Some (Some ''ok'')\<rparr>)\<rparr>),
      anthropic_messages =
        (\<lambda>url body. \<lparr>started = 0, finished = 500, outcome = HttpOk (Inr (Some ''abcd''))\<rparr>),
      gguf_health = (\<lambda>port. HttpOk (Inr ())),
      gguf_completion =
        (\<lambda>port body. \<lparr>started = 0, finished = 500, outcome = HttpOk (Inr (Some ''abcd''))\<rparr>),
      ollama_generate = (\<lambda>url body. HttpOk (Inr ten_in_two_seconds)),
      ollama_tags = (\<lambda>url. HttpOk (Inr (Some [Some ''llama2''])))\<rparr>"

text \<open>A network on which OpenAI answers after two seconds with an empty usage object
  and a message without content; the other servers are as above.\<close>

definition sparse :: network where
  "sparse =
     steady
       \<lparr>openai_chat :=
          (\<lambda>url body.
             \<lparr>started = 0, finished = 2000,
              outcome =
                HttpOk (Inr \<lparr>usage = Some \<lparr>prompt_tokens = None, completion_tokens = None,
                                          total_tokens = None\<rparr>,
                             choice_message = Some None\<rparr>)\<rparr>)\<rparr>"

text \<open>A network on which the hosted providers refuse the key: status 401 with a
  message in the body.\<close>

definition unauthorized :: network where
  "unauthorized =
     steady
       \<lparr>openai_chat :=
          (\<lambda>url body.
             \<lparr>started = 0, finished = 100,
              outcome = HttpNotOk ''Unauthorized'' (Inr (Some ''Incorrect API key provided''))\<rparr>),
        anthropic_messages :=
          (\<lambda>url body.
             \<lparr>started = 0, finished = 100,
              outcome = HttpNotOk ''Unauthorized'' (Inr (Some ''invalid x-api-key''))\<rparr>)\<rparr>"

text \<open>A world in which the first call finds the network down and the later ones find
  it up.\<close>

definition two_phase :: world where
  "two_phase = offline_world\<lparr>net := (\<lambda>i. if i = 0 then offline else steady)\<rparr>"

text \<open>A server that is up and lists exactly the three built-in models.\<close>

definition live_listing :: "string \<Rightarrow> models_outcome" where
  "live_listing url =
     HttpOk (Inr (Some [Some ''gpt-4'', Some ''gpt-4-turbo-preview'', Some ''gpt-3.5-turbo'']))"

chapter \<open>Properties\<close>

section \<open>OpenAIService.listModels\<close>

lemma model_ids_throws: "None \<in> set ms \<Longrightarrow> \<exists>e. model_ids ms = Inl e"
  by (induction ms rule: model_ids.induct) (auto split: sum.splits)

lemma listModels_try_failed: "listModels_failed out \<Longrightarrow> \<exists>e. listModels_try out = Inl e"
  by (cases out rule: listModels_failed.cases)
    (auto simp: listModels_try_def dest: model_ids_throws)

lemma listModels_returns: "\<exists>ids. OpenAIService_listModels config fetch = Inr ids"
  by (simp add: OpenAIService_listModels_def split: sum.splits)

lemma keys_modelCapabilities:
  "map fst modelCapabilities = [''gpt-4'', ''gpt-4-turbo-preview'', ''gpt-3.5-turbo'']"
  by (simp add: modelCapabilities_def)

lemma listModels_fallback:
  "listModels_failed (fetch (OpenAIService_baseUrl config @ ''/models'')) \<Longrightarrow>
   OpenAIService_listModels config fetch =
     Inr [''gpt-4'', ''gpt-4-turbo-preview'', ''gpt-3.5-turbo'']"
  using listModels_try_failed [of "fetch (OpenAIService_baseUrl config @ ''/models'')"]
  by (auto simp: OpenAIService_listModels_def keys_modelCapabilities)

lemma live_listing_same:
  "\<not> listModels_failed (live_listing url) \<and>
   OpenAIService_listModels config live_listing =
     Inr [''gpt-4'', ''gpt-4-turbo-preview'', ''gpt-3.5-turbo'']"
  by (simp add: live_listing_def OpenAIService_listModels_def listModels_try_def
      startsWith_def)

text \<open>
  C10. \<open>OpenAIService.listModels\<close> never rejects: for every reply it returns a list of
  names. On every failed reply (network failure, non-success status, malformed body) the
  list is the keys of the built-in capability table, \<open>gpt-4\<close>,
  \<open>gpt-4-turbo-preview\<close>, \<open>gpt-3.5-turbo\<close>, in that order; and a server that is
  up and lists exactly these models gives the caller the very same value, so the value
  returned does not tell the fallback from a live listing.
\<close>

theorem listModels_never_rejects:
  "(\<exists>ids. OpenAIService_listModels config fetch = Inr ids) \<and>
   (listModels_failed (fetch (OpenAIService_baseUrl config @ ''/models'')) \<longrightarrow>
      OpenAIService_listModels config fetch =
        Inr [''gpt-4'', ''gpt-4-turbo-preview'', ''gpt-3.5-turbo'']) \<and>
   \<not> listModels_failed (live_listing (OpenAIService_baseUrl config @ ''/models'')) \<and>
   OpenAIService_listModels config live_listing =
     Inr [''gpt-4'', ''gpt-4-turbo-preview'', ''gpt-3.5-turbo'']"
  using listModels_returns [of config fetch] listModels_fallback [of fetch config]
    live_listing_same [of "OpenAIService_baseUrl config @ ''/models''" config]
  by simp

theorem listModels_never_rejects_witness:
  "listModels_failed (HttpNotOk ''Unauthorized'' (Inr ())) \<and>
   OpenAIService_listModels (api_config ''a'' ''openai'' True)
     (\<lambda>url. HttpNotOk ''Unauthorized'' (Inr ())) =
     Inr [''gpt-4'', ''gpt-4-turbo-preview'', ''gpt-3.5-turbo'']"
  using listModels_never_rejects
    [of "api_config ''a'' ''openai'' True" "\<lambda>url. HttpNotOk ''Unauthorized'' (Inr ())"]
  by simp

section \<open>The adapters always return\<close>

lemma OpenAIService_try_id:
  "OpenAIService_try c ex = Inr r \<Longrightarrow> resp_id r = cfg_id c \<and> error r = None"
  by (auto simp: OpenAIService_try_def Let_def
      split: fetch_outcome.splits sum.splits option.splits)

lemma OpenAIService_returns:
  "\<exists>r. OpenAIService_generateResponse c f p = Inr r \<and> resp_id r = cfg_id c"
  by (auto simp: openai_call_def OpenAIService_generateResponse_def OpenAIService_failure_def
      split: sum.splits dest: OpenAIService_try_id)

lemma AnthropicService_try_id:
  "AnthropicService_try c p ex = Inr r \<Longrightarrow> resp_id r = cfg_id c \<and> error r = None"
  by (auto simp: AnthropicService_try_def Let_def
      split: fetch_outcome.splits sum.splits option.splits)

lemma AnthropicService_returns:
  "\<exists>r. AnthropicService_generateResponse c f p = Inr r \<and> resp_id r = cfg_id c"
  by (auto simp: anthropic_call_def AnthropicService_generateResponse_def AnthropicService_failure_def
      split: sum.splits dest: AnthropicService_try_id)

lemma GGUFService_try_id:
  "GGUFService_try c h f p = Inr r \<Longrightarrow> resp_id r = cfg_id c \<and> error r = None"
  by (auto simp: gguf_call_def GGUFService_try_def Let_def
      split: fetch_outcome.splits sum.splits option.splits bool.splits)

lemma GGUFService_returns:
  "\<exists>r. GGUFService_generateResponse c h f p = Inr r \<and> resp_id r = cfg_id c"
  by (auto simp: GGUFService_generateResponse_def GGUFService_failure_def
      split: sum.splits dest: GGUFService_try_id)

section \<open>compareModels\<close>

lemma await_all_append_eq:
  "await_all (ps @ qs) =
     (case await_all ps of
        Inl e \<Rightarrow> Inl e
      | Inr xs \<Rightarrow> (case await_all qs of Inl e \<Rightarrow> Inl e | Inr ys \<Rightarrow> Inr (xs @ ys)))"
  by (induction ps rule: await_all.induct) (auto split: sum.splits)

lemma await_all_append:
  "await_all ps = Inr xs \<Longrightarrow> await_all qs = Inr ys \<Longrightarrow> await_all (ps @ qs) = Inr (xs @ ys)"
  by (simp add: await_all_append_eq)

text \<open>A run of services of one kind whose calls always return: their responses come
  back in the order of the services, each with the id of its configuration.\<close>

lemma block_returns:
  assumes "\<And>s nw. \<exists>r. G s nw p = Inr r \<and> resp_id r = cfg_id s"
  shows "\<exists>rs. await_all (map (\<lambda>(i, call). call (nets i) p) (enumerate n (map G ss))) = Inr rs
            \<and> map resp_id rs = map cfg_id ss"
proof (induction ss arbitrary: n)
  case Nil
  then show ?case by simp
next
  case (Cons s ss)
  obtain r where r: "G s (nets n) p = Inr r" "resp_id r = cfg_id s"
    using assms by blast
  obtain rs where rs:
    "await_all (map (\<lambda>(i, call). call (nets i) p) (enumerate (Suc n) (map G ss))) = Inr rs"
    "map resp_id rs = map cfg_id ss"
    using Cons.IH by blast
  show ?case using r rs by simp
qed

lemma await_launch:
  assumes "ollama_services this = []"
  shows "\<exists>rs. await_all (map (\<lambda>(i, call). call (nets i) p) (enumerate 0 (launch this))) = Inr rs \<and>
     map resp_id rs =
       map cfg_id (openai_services this) @ map cfg_id (anthropic_services this) @
       map cfg_id (gguf_services this)"
proof -
  let ?run = "\<lambda>(i, call). call (nets i) p"
  let ?O = "map (\<lambda>s n. OpenAIService_generateResponse s (openai_chat n)) (openai_services this)"
  let ?A = "map (\<lambda>s n. AnthropicService_generateResponse s (anthropic_messages n))
              (anthropic_services this)"
  let ?G = "map (\<lambda>s n. GGUFService_generateResponse s (gguf_health n) (gguf_completion n))
              (gguf_services this)"
  obtain ro where ro: "await_all (map ?run (enumerate 0 ?O)) = Inr ro"
    "map resp_id ro = map cfg_id (openai_services this)"
    using block_returns [of "\<lambda>s n. OpenAIService_generateResponse s (openai_chat n)" p nets 0
        "openai_services this"] OpenAIService_returns
    by blast
  obtain ra where ra: "await_all (map ?run (enumerate (0 + length ?O) ?A)) = Inr ra"
    "map resp_id ra = map cfg_id (anthropic_services this)"
    using block_returns [of "\<lambda>s n. AnthropicService_generateResponse s (anthropic_messages n)"
        p nets "0 + length ?O" "anthropic_services this"] AnthropicService_returns
    by blast
  obtain rg where rg:
    "await_all (map ?run (enumerate (0 + length ?O + length ?A) ?G)) = Inr rg"
    "map resp_id rg = map cfg_id (gguf_services this)"
    using block_returns
      [of "\<lambda>s n. GGUFService_generateResponse s (gguf_health n) (gguf_completion n)"
        p nets "0 + length ?O + length ?A" "gguf_services this"] GGUFService_returns
    by blast
  have "map ?run (enumerate 0 (launch this)) =
      map ?run (enumerate 0 ?O) @ map ?run (enumerate (0 + length ?O) ?A) @
      map ?run (enumerate (0 + length ?O + length ?A) ?G)"
    using assms by (simp add: launch_def enumerate_append_eq)
  then have "await_all (map ?run (enumerate 0 (launch this))) = Inr (ro @ ra @ rg)"
    using await_all_append [OF ro(1) await_all_append [OF ra(1) rg(1)]] by simp
  then show ?thesis using ro(2) ra(2) rg(2) by simp
qed

lemma compareModels_ids:
  assumes "ollama_services this = []"
  shows "\<exists>r. compareModels this w p = Inr r \<and>
     map resp_id (responses r) =
       map cfg_id (openai_services this) @ map cfg_id (anthropic_services this) @
       map cfg_id (gguf_services this)"
proof -
  obtain rs where
    "await_all (map (\<lambda>(i, call). call (net w i) p) (enumerate 0 (launch this))) = Inr rs"
    "map resp_id rs =
       map cfg_id (openai_services this) @ map cfg_id (anthropic_services this) @
       map cfg_id (gguf_services this)"
    using await_launch [OF assms, of "net w" p] by blast
  then show ?thesis by (simp add: compareModels_def Let_def)
qed

text \<open>With an Ollama service among the enabled ones the call of the missing method
  throws, and \<open>compareModels\<close> rejects.\<close>

lemma compareModels_ollama_throws:
  assumes "ollama_services this \<noteq> []"
  shows "compareModels this w p =
    Inl (TypeError ''service.generateResponse is not a function'')"
proof -
  let ?run = "\<lambda>(i, call). call (net w i) p"
  let ?O = "map (\<lambda>s n. OpenAIService_generateResponse s (openai_chat n)) (openai_services this)"
  let ?A = "map (\<lambda>s n. AnthropicService_generateResponse s (anthropic_messages n))
              (anthropic_services this)"
  let ?L = "map (\<lambda>s (n::network). OllamaService_generateResponse s) (ollama_services this)"
  let ?G = "map (\<lambda>s n. GGUFService_generateResponse s (gguf_health n) (gguf_completion n))
              (gguf_services this)"
  obtain ro where ro: "await_all (map ?run (enumerate 0 ?O)) = Inr ro"
    using block_returns [of "\<lambda>s n. OpenAIService_generateResponse s (openai_chat n)" p "net w"
        0 "openai_services this"] OpenAIService_returns
    by blast
  obtain ra where ra: "await_all (map ?run (enumerate (0 + length ?O) ?A)) = Inr ra"
    using block_returns [of "\<lambda>s n. AnthropicService_generateResponse s (anthropic_messages n)"
        p "net w" "0 + length ?O" "anthropic_services this"] AnthropicService_returns
    by blast
  obtain l ls where l: "ollama_services this = l # ls"
    using assms by (cases "ollama_services this") auto
  define Z where "Z = map ?run (enumerate (0 + length ?O + length ?A) ?L) @
      map ?run (enumerate (0 + length ?O + length ?A + length ?L) ?G)"
  have L: "await_all Z = Inl (TypeError ''service.generateResponse is not a function'')"
    by (simp add: Z_def l OllamaService_generateResponse_def)
  have "map ?run (enumerate 0 (launch this)) =
      map ?run (enumerate 0 ?O) @ map ?run (enumerate (0 + length ?O) ?A) @ Z"
    by (simp add: Z_def launch_def enumerate_append_eq)
  then have "await_all (map ?run (enumerate 0 (launch this))) =
      Inl (TypeError ''service.generateResponse is not a function'')"
    using ro ra L by (simp add: await_all_append_eq)
  then show ?thesis by (simp add: compareModels_def)
qed

text \<open>
  C1 (as the code has it). For every prompt and every configuration set in which no
  Ollama configuration is enabled, \<open>compareModels\<close> returns a result with exactly one
  response for each enabled configuration of the kinds openai, anthropic and gguf, in
  this order and carrying the configuration's id, whichever calls succeed or fail.
  Enabled google and huggingface configurations are not dispatched to and get no
  response.
\<close>

theorem compareModels_one_response_per_dispatched_config:
  assumes "filter enabled (ollama cfgs) = []"
  shows "\<exists>r. compareModels (updateConfigs this cfgs) w p = Inr r \<and>
     map resp_id (responses r) =
       map cfg_id (filter enabled (openai cfgs)) @
       map cfg_id (filter enabled (anthropic cfgs)) @
       map cfg_id (filter enabled (gguf cfgs)) \<and>
     length (responses r) =
       length (filter enabled (openai cfgs)) + length (filter enabled (anthropic cfgs)) +
       length (filter enabled (gguf cfgs))"
proof -
  have "ollama_services (updateConfigs this cfgs) = []"
    using assms by (simp add: updateConfigs_def)
  from compareModels_ids [OF this, of w p]
  obtain r where r: "compareModels (updateConfigs this cfgs) w p = Inr r"
    "map resp_id (responses r) =
       map cfg_id (filter enabled (openai cfgs)) @
       map cfg_id (filter enabled (anthropic cfgs)) @
       map cfg_id (filter enabled (gguf cfgs))"
    by (auto simp: updateConfigs_def)
  from arg_cong [OF r(2), of length] have "length (responses r) =
       length (filter enabled (openai cfgs)) + length (filter enabled (anthropic cfgs)) +
       length (filter enabled (gguf cfgs))"
    by simp
  with r show ?thesis by blast
qed

theorem compareModels_one_response_per_dispatched_config_witness:
  "filter enabled (ollama mixed_configs) = [] \<and>
   (\<exists>r. compareModels (updateConfigs ComparisonService_new mixed_configs) offline_world
           ''hello'' = Inr r \<and>
        map resp_id (responses r) = [''a'', ''g''] \<and> length (responses r) = 2)"
  using compareModels_one_response_per_dispatched_config
    [of mixed_configs ComparisonService_new offline_world "''hello''"]
  by (auto simp: mixed_configs_def no_configs_def api_config_def gguf_config_def)

text \<open>The claim as the specification states it fails: one enabled huggingface
  configuration, and the result has no response.\<close>

theorem compareModels_skips_huggingface:
  "enabled_count hf_only = 1 \<and>
   compareModels (updateConfigs ComparisonService_new hf_only) offline_world ''hello'' =
     Inr \<lparr>prompt = ''hello'', timestamp = ''2024-03-01T00:00:00.000Z'', responses = [],
          totalTime = 5, errors = None\<rparr>"
  by (simp add: enabled_count_def hf_only_def no_configs_def api_config_def
      compareModels_def updateConfigs_def launch_def offline_world_def)

text \<open>
  C5 (as the code has it). The responses of a comparison are in submission order: the
  result is the same whatever the ticks at which the calls settle, and (no Ollama
  service being enabled) the responses follow the services in the order openai,
  anthropic, gguf, each group in configuration order.
\<close>

theorem compareModels_submission_order:
  "compareModels this (w\<lparr>settled := tick\<rparr>) p = compareModels this w p \<and>
   (ollama_services this = [] \<longrightarrow>
     (\<exists>r. compareModels this w p = Inr r \<and>
        map resp_id (responses r) =
          map cfg_id (openai_services this) @ map cfg_id (anthropic_services this) @
          map cfg_id (gguf_services this)))"
proof -
  have "compareModels this (w\<lparr>settled := tick\<rparr>) p = compareModels this w p"
    by (simp add: compareModels_def split: sum.splits)
  then show ?thesis using compareModels_ids [of this w p] by blast
qed

theorem compareModels_submission_order_witness:
  "compareModels (updateConfigs ComparisonService_new two_openai)
     (offline_world\<lparr>settled := (\<lambda>i. 7 - i)\<rparr>) ''hello'' =
   compareModels (updateConfigs ComparisonService_new two_openai) offline_world ''hello'' \<and>
   ollama_services (updateConfigs ComparisonService_new two_openai) = [] \<and>
   (\<exists>r. compareModels (updateConfigs ComparisonService_new two_openai) offline_world
           ''hello'' = Inr r \<and>
        map resp_id (responses r) = [''a'', ''b''])"
  using compareModels_submission_order
    [where this = "updateConfigs ComparisonService_new two_openai" and w = offline_world
      and tick = "\<lambda>i. 7 - i" and p = "''hello''"]
  by (auto simp: two_openai_def no_configs_def api_config_def updateConfigs_def)

text \<open>The claim as the specification states it fails: the second call settles first,
  and the responses are still in the order of the configurations.\<close>

theorem compareModels_not_settlement_order:
  "(case compareModels (updateConfigs ComparisonService_new two_openai) late_first ''hello'' of
      Inl e \<Rightarrow> False
    | Inr r \<Rightarrow>
        map resp_id (responses r) = [''a'', ''b''] \<and>
        map resp_id (settlement_order (settled late_first) (responses r)) = [''b'', ''a''])"
  by (simp add: openai_call_def two_openai_def no_configs_def api_config_def compareModels_def
      updateConfigs_def launch_def offline_world_def late_first_def offline_def
      settlement_order_def OpenAIService_generateResponse_def OpenAIService_try_def
      OpenAIService_failure_def enumerate_eq_zip)

section \<open>Failures inside the adapters\<close>










lemma OllamaService_rethrows:
  "(ollama_failed (ollama_call c f p) \<longrightarrow> (\<exists>e'. OllamaService_generateCompletion c f p = Inl e')) \<and>
   (ollama_call c f p = Rejected e \<longrightarrow> OllamaService_generateCompletion c f p = Inl e) \<and>
   (\<not> ollama_failed (ollama_call c f p) \<longrightarrow> (\<exists>m. OllamaService_generateCompletion c f p = Inr m))"
  by (auto simp: OllamaService_generateCompletion_def ollama_failed_def ollama_call_def Let_def
      split: fetch_outcome.splits sum.splits)





section \<open>User input and total failure\<close>

lemma clickCompare_form:
  "enabledModels cfgs \<noteq> [] \<Longrightarrow>
   clickCompare cfgs nets clock tick p sel = Some (handleCompare cfgs nets clock tick p sel)"
  by (simp add: clickCompare_def ComparisonDashboard_view_def)

lemma clickCompare_no_models:
  "enabledModels cfgs = [] \<Longrightarrow>
   ComparisonDashboard_view cfgs = NoModelsConfigured \<and>
   clickCompare cfgs nets clock tick p sel = None"
  by (simp add: clickCompare_def ComparisonDashboard_view_def)

lemma handleCompare_blank:
  "trim p = [] \<Longrightarrow>
   handleCompare cfgs nets clock tick p sel =
     \<lparr>toasts = [\<lparr>title = ''Error'', description = ''Please enter a prompt to compare''\<rparr>],
      requested = [], results = []\<rparr>"
  by (simp add: handleCompare_def)

lemma handleCompare_no_selection:
  "trim p \<noteq> [] \<Longrightarrow> sel = [] \<Longrightarrow>
   handleCompare cfgs nets clock tick p sel =
     \<lparr>toasts = [\<lparr>title = ''Error'',
                 description = ''Please select at least one model to compare''\<rparr>],
      requested = [], results = []\<rparr>"
  by (simp add: handleCompare_def)

lemma compareModels_none_enabled:
  "filter enabled (openai cfgs) = [] \<Longrightarrow> filter enabled (anthropic cfgs) = [] \<Longrightarrow>
   filter enabled (ollama cfgs) = [] \<Longrightarrow> filter enabled (gguf cfgs) = [] \<Longrightarrow>
   compareModels (updateConfigs this cfgs) w p =
     Inr \<lparr>prompt = p, timestamp = clock_iso w, responses = [],
          totalTime = clock_end w - clock_start w, errors = None\<rparr>"
  by (simp add: compareModels_def updateConfigs_def launch_def)

lemma compareModels_count:
  assumes "ollama_services this = []"
  shows "\<exists>r. compareModels this w p = Inr r \<and>
     length (responses r) =
       length (openai_services this) + length (anthropic_services this) +
       length (gguf_services this)"
proof -
  obtain r where r: "compareModels this w p = Inr r"
    "map resp_id (responses r) =
       map cfg_id (openai_services this) @ map cfg_id (anthropic_services this) @
       map cfg_id (gguf_services this)"
    using compareModels_ids [OF assms, of w p] by blast
  from arg_cong [OF r(2), of length] r(1) show ?thesis by simp
qed

text \<open>
  C3 (as the code has it). The user-input checks are made by the dashboard, not by the
  orchestrator. With no enabled model the page shows the card
  \<open>No models configured\<close> and has no Compare button: no comparison can be started.
  On the form, a click with a prompt that is empty after trimming, or with an empty
  selection, shows exactly one error toast, sends no request and adds no result.
  \<open>compareModels\<close> itself checks nothing: with no enabled service it returns a normal
  result with no responses and no errors, and (no Ollama service being enabled) it
  returns one response per service for every prompt, a blank one included.
\<close>

theorem user_input_errors_come_from_handleCompare:
  "(enabledModels cfgs = [] \<longrightarrow>
      ComparisonDashboard_view cfgs = NoModelsConfigured \<and>
      clickCompare cfgs nets clock tick p sel = None) \<and>
   (enabledModels cfgs \<noteq> [] \<and> trim p = [] \<longrightarrow>
      clickCompare cfgs nets clock tick p sel =
        Some \<lparr>toasts = [\<lparr>title = ''Error'',
                         description = ''Please enter a prompt to compare''\<rparr>],
              requested = [], results = []\<rparr>) \<and>
   (enabledModels cfgs \<noteq> [] \<and> trim p \<noteq> [] \<and> sel = [] \<longrightarrow>
      clickCompare cfgs nets clock tick p sel =
        Some \<lparr>toasts = [\<lparr>title = ''Error'',
                         description = ''Please select at least one model to compare''\<rparr>],
              requested = [], results = []\<rparr>) \<and>
   (filter enabled (openai cfgs) = [] \<and> filter enabled (anthropic cfgs) = [] \<and>
    filter enabled (ollama cfgs) = [] \<and> filter enabled (gguf cfgs) = [] \<longrightarrow>
      compareModels (updateConfigs this cfgs) w p =
        Inr \<lparr>prompt = p, timestamp = clock_iso w, responses = [],
             totalTime = clock_end w - clock_start w, errors = None\<rparr>) \<and>
   (ollama_services S = [] \<longrightarrow>
      (\<exists>r. compareModels S w p = Inr r \<and>
         length (responses r) =
           length (openai_services S) + length (anthropic_services S) +
           length (gguf_services S)))"
  using clickCompare_no_models [of cfgs nets clock tick p sel]
    clickCompare_form [of cfgs nets clock tick p sel]
    handleCompare_blank [of p cfgs nets clock tick sel]
    handleCompare_no_selection [of p sel cfgs nets clock tick]
    compareModels_none_enabled [of cfgs this w p]
    compareModels_count [of S w p]
  by auto

theorem user_input_errors_come_from_handleCompare_witness:
  "enabledModels no_configs = [] \<and>
   ComparisonDashboard_view no_configs = NoModelsConfigured \<and>
   clickCompare no_configs (\<lambda>i. offline) (\<lambda>i. 0) (\<lambda>i. i) ''hello'' [] = None \<and>
   enabledModels two_openai \<noteq> [] \<and> trim ''  '' = [] \<and>
   clickCompare two_openai (\<lambda>i. offline) (\<lambda>i. 0) (\<lambda>i. i) ''  '' [''a''] =
     Some \<lparr>toasts = [\<lparr>title = ''Error'', description = ''Please enter a prompt to compare''\<rparr>],
           requested = [], results = []\<rparr> \<and>
   trim ''hello'' \<noteq> [] \<and>
   clickCompare two_openai (\<lambda>i. offline) (\<lambda>i. 0) (\<lambda>i. i) ''hello'' [] =
     Some \<lparr>toasts = [\<lparr>title = ''Error'',
                      description = ''Please select at least one model to compare''\<rparr>],
           requested = [], results = []\<rparr> \<and>
   compareModels (updateConfigs ComparisonService_new no_configs) offline_world ''hello'' =
     Inr \<lparr>prompt = ''hello'', timestamp = ''2024-03-01T00:00:00.000Z'', responses = [],
          totalTime = 5, errors = None\<rparr> \<and>
   ollama_services (updateConfigs ComparisonService_new one_openai) = [] \<and>
   (\<exists>r. compareModels (updateConfigs ComparisonService_new one_openai) offline_world ''  ''
          = Inr r \<and> length (responses r) = 1)"
  using user_input_errors_come_from_handleCompare
      [where cfgs = no_configs and nets = "\<lambda>i. offline" and clock = "\<lambda>i. 0"
        and tick = "\<lambda>i. i" and p = "''hello''" and sel = "[]"
        and this = ComparisonService_new and w = offline_world
        and S = "updateConfigs ComparisonService_new one_openai"]
    user_input_errors_come_from_handleCompare
      [where cfgs = two_openai and nets = "\<lambda>i. offline" and clock = "\<lambda>i. 0"
        and tick = "\<lambda>i. i" and p = "''  ''" and sel = "[''a'']"
        and this = ComparisonService_new and w = offline_world
        and S = "updateConfigs ComparisonService_new one_openai"]
    user_input_errors_come_from_handleCompare
      [where cfgs = two_openai and nets = "\<lambda>i. offline" and clock = "\<lambda>i. 0"
        and tick = "\<lambda>i. i" and p = "''hello''" and sel = "[]"
        and this = ComparisonService_new and w = offline_world
        and S = "updateConfigs ComparisonService_new one_openai"]
  by (simp add: trim_def is_whitespace_def enabledModels_def no_configs_def two_openai_def
      one_openai_def api_config_def updateConfigs_def offline_world_def)

text \<open>The claim as the specification states it fails for \<open>compareModels\<close>: a
  prompt of two spaces is sent to the enabled service, and a response is produced.\<close>

theorem compareModels_sends_blank_prompt:
  "trim ''  '' = [] \<and>
   compareModels (updateConfigs ComparisonService_new one_openai) offline_world ''  '' =
     Inr \<lparr>prompt = ''  '', timestamp = ''2024-03-01T00:00:00.000Z'',
          responses = [failure_response ''a'' ''OpenAI'' ''gpt-4'' ''Failed to fetch''],
          totalTime = 5, errors = Some [''OpenAI (gpt-4): Failed to fetch'']\<rparr>"
  by (simp add: openai_call_def trim_def is_whitespace_def one_openai_def no_configs_def
      api_config_def compareModels_def updateConfigs_def launch_def offline_world_def
      offline_def unreachable_def OpenAIService_generateResponse_def OpenAIService_try_def
      OpenAIService_failure_def failure_response_def has_error_def error_line_def or_str_def)

subsection \<open>Every call fails\<close>

text \<open>A run of services of one kind whose calls all return a response with a given
  property: the responses come back, one per service, each with the property.\<close>

lemma block_all:
  assumes "\<And>i. i < length ss \<Longrightarrow> \<exists>r. G (ss ! i) (nets (n + i)) p = Inr r \<and> Q r"
  shows "\<exists>rs. await_all (map (\<lambda>(i, call). call (nets i) p) (enumerate n (map G ss))) = Inr rs
            \<and> length rs = length ss \<and> list_all Q rs"
  using assms
proof (induction ss arbitrary: n)
  case Nil
  then show ?case by simp
next
  case (Cons s ss)
  obtain r where r: "G s (nets n) p = Inr r" "Q r"
    using Cons.prems [of 0] by auto
  have "\<exists>r. G (ss ! i) (nets (Suc n + i)) p = Inr r \<and> Q r" if "i < length ss" for i
    using Cons.prems [of "Suc i"] that by simp
  then obtain rs where rs:
    "await_all (map (\<lambda>(i, call). call (nets i) p) (enumerate (Suc n) (map G ss))) = Inr rs"
    "length rs = length ss" "list_all Q rs"
    using Cons.IH [of "Suc n"] by blast
  show ?case using r rs by simp
qed

lemma openai_fails_error:
  "openai_fails c n p \<Longrightarrow>
   \<exists>r. OpenAIService_generateResponse c (openai_chat n) p = Inr r \<and> has_error r"
  by (auto simp: openai_fails_def openai_failed_def errors_have_messages_def
      OpenAIService_generateResponse_def OpenAIService_try_def OpenAIService_failure_def
      has_error_def or_str_def undefined_read_def Let_def
      split: fetch_outcome.splits sum.splits option.splits)

lemma anthropic_fails_error:
  "anthropic_fails c n p \<Longrightarrow>
   \<exists>r. AnthropicService_generateResponse c (anthropic_messages n) p = Inr r \<and> has_error r"
  by (auto simp: anthropic_fails_def text_failed_def errors_have_messages_def
      AnthropicService_generateResponse_def AnthropicService_try_def
      AnthropicService_failure_def has_error_def or_str_def undefined_read_def Let_def
      split: fetch_outcome.splits sum.splits option.splits)

lemma gguf_fails_error:
  "gguf_fails c n p \<Longrightarrow>
   \<exists>r. GGUFService_generateResponse c (gguf_health n) (gguf_completion n) p = Inr r \<and>
       has_error r"
  by (auto simp: gguf_fails_def text_failed_def errors_have_messages_def health_ok_def
      GGUFService_generateResponse_def GGUFService_try_def GGUFService_isServerRunning_def
      GGUFService_failure_def has_error_def or_str_def undefined_read_def Let_def
      split: fetch_outcome.splits sum.splits option.splits)

lemma compareModels_errors:
  "compareModels this w p = Inr r \<Longrightarrow>
   errors r = (if filter has_error (responses r) = [] then None
               else Some (map error_line (filter has_error (responses r))))"
  by (auto simp: compareModels_def Let_def split: sum.splits)

lemma filter_all: "list_all P xs \<Longrightarrow> filter P xs = xs"
  by (induction xs) auto

lemma compareModels_all_fail:
  assumes "ollama_services this = []"
    and O: "\<And>i. i < length (openai_services this) \<Longrightarrow>
              openai_fails (openai_services this ! i) (net w i) p"
    and A: "\<And>i. i < length (anthropic_services this) \<Longrightarrow>
              anthropic_fails (anthropic_services this ! i)
                (net w (length (openai_services this) + i)) p"
    and G: "\<And>i. i < length (gguf_services this) \<Longrightarrow>
              gguf_fails (gguf_services this ! i)
                (net w (length (openai_services this) + length (anthropic_services this) + i)) p"
  shows "\<exists>r. compareModels this w p = Inr r \<and>
     length (responses r) =
       length (openai_services this) + length (anthropic_services this) +
       length (gguf_services this) \<and>
     list_all has_error (responses r) \<and>
     errors r = (if responses r = [] then None else Some (map error_line (responses r)))"
proof -
  let ?run = "\<lambda>(i, call). call (net w i) p"
  let ?O = "map (\<lambda>s n. OpenAIService_generateResponse s (openai_chat n)) (openai_services this)"
  let ?A = "map (\<lambda>s n. AnthropicService_generateResponse s (anthropic_messages n))
              (anthropic_services this)"
  let ?G = "map (\<lambda>s n. GGUFService_generateResponse s (gguf_health n) (gguf_completion n))
              (gguf_services this)"
  obtain ro where ro: "await_all (map ?run (enumerate 0 ?O)) = Inr ro"
    "length ro = length (openai_services this)" "list_all has_error ro"
    using block_all [of "openai_services this"
        "\<lambda>s n. OpenAIService_generateResponse s (openai_chat n)" "net w" 0 p has_error]
      openai_fails_error O
    by auto
  obtain ra where ra: "await_all (map ?run (enumerate (0 + length ?O) ?A)) = Inr ra"
    "length ra = length (anthropic_services this)" "list_all has_error ra"
    using block_all [of "anthropic_services this"
        "\<lambda>s n. AnthropicService_generateResponse s (anthropic_messages n)" "net w"
        "0 + length ?O" p has_error]
      anthropic_fails_error A
    by auto
  obtain rg where rg:
    "await_all (map ?run (enumerate (0 + length ?O + length ?A) ?G)) = Inr rg"
    "length rg = length (gguf_services this)" "list_all has_error rg"
    using block_all [of "gguf_services this"
        "\<lambda>s n. GGUFService_generateResponse s (gguf_health n) (gguf_completion n)" "net w"
        "0 + length ?O + length ?A" p has_error]
      gguf_fails_error G
    by auto
  have "map ?run (enumerate 0 (launch this)) =
      map ?run (enumerate 0 ?O) @ map ?run (enumerate (0 + length ?O) ?A) @
      map ?run (enumerate (0 + length ?O + length ?A) ?G)"
    using assms(1) by (simp add: launch_def enumerate_append_eq)
  then have all: "await_all (map ?run (enumerate 0 (launch this))) = Inr (ro @ ra @ rg)"
    using await_all_append [OF ro(1) await_all_append [OF ra(1) rg(1)]] by simp
  then obtain r where r: "compareModels this w p = Inr r" "responses r = ro @ ra @ rg"
    by (simp add: compareModels_def Let_def)
  have h: "list_all has_error (responses r)"
    using r(2) ro(3) ra(3) rg(3) by simp
  have "errors r = (if responses r = [] then None else Some (map error_line (responses r)))"
    using compareModels_errors [OF r(1)] filter_all [OF h] by simp
  with r h ro(2) ra(2) rg(2) show ?thesis by simp
qed

text \<open>A selected model yields no result unless it is an Ollama model whose call
  succeeds.\<close>

lemma process_model_no_result:
  assumes "\<And>m. find (\<lambda>x. model_id x = i) (enabledModels cfgs) = Some (OllamaModel m) \<Longrightarrow>
             ollama_failed (ollama_call m (ollama_generate n) p)"
  shows "results (process_model cfgs n now p i) = []"
proof (cases "find (\<lambda>x. model_id x = i) (enabledModels cfgs)")
  case None
  then show ?thesis by (simp add: process_model_def)
next
  case (Some x)
  show ?thesis
  proof (cases x)
    case (OpenAIModel m)
    with Some show ?thesis by (simp add: process_model_def)
  next
    case (OllamaModel m)
    with Some assms have "ollama_failed (ollama_call m (ollama_generate n) p)" by simp
    then obtain e where "OllamaService_generateCompletion m (ollama_generate n) p = Inl e"
      using OllamaService_rethrows [of m "ollama_generate n" p] by blast
    with Some OllamaModel show ?thesis by (simp add: process_model_def)
  qed
qed

lemma handleCompare_all_fail:
  assumes "trim p \<noteq> []" "sel \<noteq> []"
    and "\<And>i m. i < length sel \<Longrightarrow>
           find (\<lambda>x. model_id x = sel ! i) (enabledModels cfgs) = Some (OllamaModel m) \<Longrightarrow>
           ollama_failed (ollama_call m (ollama_generate (nets i)) p)"
  shows "results (handleCompare cfgs nets clock tick p sel) = [] \<and>
     toasts (handleCompare cfgs nets clock tick p sel) \<noteq> [] \<and>
     last (toasts (handleCompare cfgs nets clock tick p sel)) =
       \<lparr>title = ''Error'', description = ''No successful model responses''\<rparr>"
proof -
  have "results (process_model cfgs (nets i) (clock i) p m) = []"
    if "(i, m) \<in> set (enumerate 0 sel)" for i m
  proof -
    from that have "i < length sel" "sel ! i = m"
      by (simp_all add: in_set_enumerate_eq)
    with assms(3) [of i] show ?thesis
      using process_model_no_result [of m cfgs "nets i" p "clock i"] by auto
  qed
  then have "concat (map results
      (map (\<lambda>(i, modelId'). process_model cfgs (nets i) (clock i) p modelId')
         (enumerate 0 sel))) = []"
    by auto
  with assms(1,2) show ?thesis by (simp add: handleCompare_def Let_def)
qed

text \<open>
  C4 (as the code has it). When every call fails (with a message), \<open>compareModels\<close>
  (no Ollama service being enabled) still returns a normal result: it has one response
  per service, every response carries its error, and \<open>errors\<close> lists one line for
  each. The distinct error \<open>No successful model responses\<close> is raised by the
  dashboard: a click on Compare with a prompt and a selection, after which the call of
  every selected Ollama model fails, adds no result and shows that error as its last
  toast.
\<close>

theorem total_failure_is_a_normal_result:
  "(ollama_services this = [] \<and>
    (\<forall>i. i < length (openai_services this) \<longrightarrow>
         openai_fails (openai_services this ! i) (net w i) p) \<and>
    (\<forall>i. i < length (anthropic_services this) \<longrightarrow>
         anthropic_fails (anthropic_services this ! i)
           (net w (length (openai_services this) + i)) p) \<and>
    (\<forall>i. i < length (gguf_services this) \<longrightarrow>
         gguf_fails (gguf_services this ! i)
           (net w (length (openai_services this) + length (anthropic_services this) + i))
           p) \<longrightarrow>
      (\<exists>r. compareModels this w p = Inr r \<and>
         length (responses r) =
           length (openai_services this) + length (anthropic_services this) +
           length (gguf_services this) \<and>
         list_all has_error (responses r) \<and>
         errors r = (if responses r = [] then None
                     else Some (map error_line (responses r))))) \<and>
   (enabledModels cfgs \<noteq> [] \<and> trim p \<noteq> [] \<and> sel \<noteq> [] \<and>
    (\<forall>i m. i < length sel \<and>
         find (\<lambda>x. model_id x = sel ! i) (enabledModels cfgs) = Some (OllamaModel m) \<longrightarrow>
         ollama_failed (ollama_call m (ollama_generate (nets i)) p)) \<longrightarrow>
      (\<exists>run. clickCompare cfgs nets clock tick p sel = Some run \<and>
         results run = [] \<and> toasts run \<noteq> [] \<and>
         last (toasts run) =
           \<lparr>title = ''Error'', description = ''No successful model responses''\<rparr>))"
proof (intro conjI impI)
  assume "ollama_services this = [] \<and>
    (\<forall>i. i < length (openai_services this) \<longrightarrow>
         openai_fails (openai_services this ! i) (net w i) p) \<and>
    (\<forall>i. i < length (anthropic_services this) \<longrightarrow>
         anthropic_fails (anthropic_services this ! i)
           (net w (length (openai_services this) + i)) p) \<and>
    (\<forall>i. i < length (gguf_services this) \<longrightarrow>
         gguf_fails (gguf_services this ! i)
           (net w (length (openai_services this) + length (anthropic_services this) + i))
           p)"
  then show "\<exists>r. compareModels this w p = Inr r \<and>
         length (responses r) =
           length (openai_services this) + length (anthropic_services this) +
           length (gguf_services this) \<and>
         list_all has_error (responses r) \<and>
         errors r = (if responses r = [] then None
                     else Some (map error_line (responses r)))"
    using compareModels_all_fail [of this w p] by blast
next
  assume h: "enabledModels cfgs \<noteq> [] \<and> trim p \<noteq> [] \<and> sel \<noteq> [] \<and>
    (\<forall>i m. i < length sel \<and>
         find (\<lambda>x. model_id x = sel ! i) (enabledModels cfgs) = Some (OllamaModel m) \<longrightarrow>
         ollama_failed (ollama_call m (ollama_generate (nets i)) p))"
  then have "clickCompare cfgs nets clock tick p sel =
      Some (handleCompare cfgs nets clock tick p sel)"
    by (simp add: clickCompare_form)
  moreover have "results (handleCompare cfgs nets clock tick p sel) = [] \<and>
     toasts (handleCompare cfgs nets clock tick p sel) \<noteq> [] \<and>
     last (toasts (handleCompare cfgs nets clock tick p sel)) =
       \<lparr>title = ''Error'', description = ''No successful model responses''\<rparr>"
    using h handleCompare_all_fail [of p sel cfgs nets clock tick] by blast
  ultimately show "\<exists>run. clickCompare cfgs nets clock tick p sel = Some run \<and>
         results run = [] \<and> toasts run \<noteq> [] \<and>
         last (toasts run) =
           \<lparr>title = ''Error'', description = ''No successful model responses''\<rparr>"
    by simp
qed

theorem total_failure_is_a_normal_result_witness:
  "ollama_services (updateConfigs ComparisonService_new two_openai) = [] \<and>
   openai_fails (api_config ''a'' ''openai'' True) (net offline_world 0) ''hello'' \<and>
   openai_fails (api_config ''b'' ''openai'' True) (net offline_world 1) ''hello'' \<and>
   (\<exists>r. compareModels (updateConfigs ComparisonService_new two_openai) offline_world ''hello''
          = Inr r \<and>
        length (responses r) = 2 \<and> list_all has_error (responses r) \<and>
        errors r = Some (map error_line (responses r))) \<and>
   enabledModels ollama_only \<noteq> [] \<and> trim ''hello'' \<noteq> [] \<and>
   ollama_failed
     (ollama_call (ollama_config ''o'' True) (ollama_generate offline) ''hello'') \<and>
   clickCompare ollama_only (\<lambda>i. offline) (\<lambda>i. 0) (\<lambda>i. i) ''hello'' [''o''] =
     Some \<lparr>toasts = [\<lparr>title = ''Error with o'', description = ''Failed to fetch''\<rparr>,
                     \<lparr>title = ''Error'', description = ''No successful model responses''\<rparr>],
           requested = [''o''], results = []\<rparr>"
proof -
  let ?S = "updateConfigs ComparisonService_new two_openai"
  have sv: "openai_services ?S = [api_config ''a'' ''openai'' True, api_config ''b'' ''openai'' True]"
    "anthropic_services ?S = []" "ollama_services ?S = []" "gguf_services ?S = []"
    by (simp_all add: updateConfigs_def two_openai_def no_configs_def api_config_def)
  have f: "openai_fails (api_config ''a'' ''openai'' True) (net offline_world i) ''hello''"
    "openai_fails (api_config ''b'' ''openai'' True) (net offline_world i) ''hello''" for i
    by (simp_all add: openai_fails_def openai_failed_def errors_have_messages_def
        openai_call_def offline_world_def offline_def unreachable_def)
  have all: "\<forall>i. i < length (openai_services ?S) \<longrightarrow>
      openai_fails (openai_services ?S ! i) (net offline_world i) ''hello''"
    using f by (simp add: sv nth_Cons split: nat.splits)
  have d: "enabledModels ollama_only \<noteq> []" "trim ''hello'' \<noteq> []"
    "ollama_failed (ollama_call (ollama_config ''o'' True) (ollama_generate offline) ''hello'')"
    by (simp_all add: enabledModels_def ollama_only_def no_configs_def ollama_config_def
        trim_def is_whitespace_def ollama_failed_def ollama_call_def offline_def)
  have c: "clickCompare ollama_only (\<lambda>i. offline) (\<lambda>i. 0) (\<lambda>i. i) ''hello'' [''o''] =
     Some \<lparr>toasts = [\<lparr>title = ''Error with o'', description = ''Failed to fetch''\<rparr>,
                     \<lparr>title = ''Error'', description = ''No successful model responses''\<rparr>],
           requested = [''o''], results = []\<rparr>"
    by (simp add: clickCompare_def ComparisonDashboard_view_def handleCompare_def
        process_model_def enabledModels_def ollama_only_def no_configs_def ollama_config_def
        trim_def is_whitespace_def OllamaService_generateCompletion_def ollama_call_def
        offline_def unreachable_def settlement_order_def)
  have sel: "\<forall>i m. i < length [''o''] \<and>
      find (\<lambda>x. model_id x = [''o''] ! i) (enabledModels ollama_only) = Some (OllamaModel m) \<longrightarrow>
      ollama_failed (ollama_call m (ollama_generate offline) ''hello'')"
    by (simp add: ollama_failed_def ollama_call_def offline_def)
  note inst = total_failure_is_a_normal_result
    [where this = ?S and w = offline_world and p = "''hello''" and cfgs = ollama_only
      and nets = "\<lambda>i. offline" and clock = "\<lambda>i. 0" and tick = "\<lambda>i. i"
      and sel = "[''o'']"]
  from inst [THEN conjunct1] all
  obtain r where r: "compareModels ?S offline_world ''hello'' = Inr r"
    "length (responses r) = 2" "list_all has_error (responses r)"
    "errors r = (if responses r = [] then None else Some (map error_line (responses r)))"
    by (auto simp: sv)
  from inst [THEN conjunct2] d sel
  obtain run where run:
    "clickCompare ollama_only (\<lambda>i. offline) (\<lambda>i. 0) (\<lambda>i. i) ''hello'' [''o''] = Some run"
    "results run = []"
    "last (toasts run) = \<lparr>title = ''Error'', description = ''No successful model responses''\<rparr>"
    by auto
  from r(2) have "responses r \<noteq> []" by auto
  with r f [of 0] f [of 1] d c sv show ?thesis by auto
qed

text \<open>The claim as the specification states it fails for \<open>compareModels\<close>: both
  calls fail, and the result is a normal one whose entries all carry errors.\<close>

theorem compareModels_returns_all_errors:
  "compareModels (updateConfigs ComparisonService_new two_openai) offline_world ''hello'' =
     Inr \<lparr>prompt = ''hello'', timestamp = ''2024-03-01T00:00:00.000Z'',
          responses = [failure_response ''a'' ''OpenAI'' ''gpt-4'' ''Failed to fetch'',
                       failure_response ''b'' ''OpenAI'' ''gpt-4'' ''Failed to fetch''],
          totalTime = 5,
          errors = Some [''OpenAI (gpt-4): Failed to fetch'', ''OpenAI (gpt-4): Failed to fetch'']\<rparr>"
  by (simp add: openai_call_def two_openai_def no_configs_def api_config_def
      compareModels_def updateConfigs_def launch_def offline_world_def offline_def
      unreachable_def OpenAIService_generateResponse_def OpenAIService_try_def
      OpenAIService_failure_def failure_response_def has_error_def error_line_def or_str_def)

section \<open>Tokens per second\<close>











section \<open>Throughput of the Ollama adapter\<close>

text \<open>The private \<open>calculateMetrics\<close>, which nothing calls, divides the count by
  \<open>eval_duration / 1000\<close> when \<open>eval_count\<close> and \<open>eval_duration\<close> are both
  present and non-zero, and otherwise falls back to the character estimate over the
  response time.\<close>

lemma calculateMetrics_throughput:
  "(eval_count stats = Some n \<and> eval_duration stats = Some d \<and> n \<noteq> 0 \<and> d \<noteq> 0 \<longrightarrow>
      tokensPerSecond (OllamaService_calculateMetrics c stats rt txt) =
        Fin (of_nat n / (of_nat d / 1000))) \<and>
   (\<not> truthy_count (eval_count stats) \<or> \<not> truthy_count (eval_duration stats) \<longrightarrow>
      tokensPerSecond (OllamaService_calculateMetrics c stats rt txt) =
        js_div (num_of_nat (estimateTokenCount txt)) (js_div rt (Fin 1000)))"
  by (auto simp: OllamaService_calculateMetrics_def Let_def truthy_count_def to_num_def
      num_of_nat_def)

text \<open>
  C7 (as the code has it). The throughput that \<open>generateCompletion\<close> returns is
  the number of all tokens, prompt and completion, divided by the whole processing time
  in seconds: when the payload has \<open>prompt_eval_count\<close>, \<open>eval_count\<close>,
  \<open>prompt_eval_duration\<close> and \<open>eval_duration\<close> and the two durations do not add
  up to zero, it is
  \<open>(prompt_eval_count + eval_count) / ((prompt_eval_duration + eval_duration) / 1e9)\<close>.
  There is no fallback: when one of the four fields is absent the throughput is
  \<open>NaN\<close>, whatever the text and the response time are.
\<close>

theorem generateCompletion_throughput_is_all_tokens_over_all_time:
  "ollama_call c f p = HttpOk (Inr d) \<longrightarrow>
     (\<exists>m. OllamaService_generateCompletion c f p = Inr m \<and>
        (\<forall>a b x y. prompt_eval_count d = Some a \<and> eval_count d = Some b \<and>
           prompt_eval_duration d = Some x \<and> eval_duration d = Some y \<and> 0 < x + y \<longrightarrow>
           oc_tokensPerSecond m =
             Fin ((of_nat a + of_nat b) / ((of_nat x + of_nat y) / 1000000000))) \<and>
        (prompt_eval_count d = None \<or> eval_count d = None \<or>
         prompt_eval_duration d = None \<or> eval_duration d = None \<longrightarrow>
           oc_tokensPerSecond m = NaN))"
  by (auto simp: OllamaService_generateCompletion_def ollama_call_def Let_def to_num_def
      num_of_nat_def split: option.splits)

theorem generateCompletion_throughput_is_all_tokens_over_all_time_witness:
  "ollama_call (ollama_config ''o'' True) (ollama_generate steady) ''hello'' =
     HttpOk (Inr ten_in_two_seconds) \<and>
   prompt_eval_count ten_in_two_seconds = Some 20 \<and> eval_count ten_in_two_seconds = Some 10 \<and>
   prompt_eval_duration ten_in_two_seconds = Some 2000000000 \<and>
   eval_duration ten_in_two_seconds = Some 2000000000 \<and>
   (\<exists>m. OllamaService_generateCompletion (ollama_config ''o'' True) (ollama_generate steady)
          ''hello'' = Inr m \<and>
        oc_tokensPerSecond m = Fin (15 / 2)) \<and>
   ollama_call (ollama_config ''o'' True)
       (\<lambda>url body. HttpOk (Inr (ten_in_two_seconds\<lparr>eval_count := None\<rparr>))) ''hello'' =
     HttpOk (Inr (ten_in_two_seconds\<lparr>eval_count := None\<rparr>)) \<and>
   eval_count (ten_in_two_seconds\<lparr>eval_count := None\<rparr>) = None \<and>
   (\<exists>m. OllamaService_generateCompletion (ollama_config ''o'' True)
          (\<lambda>url body. HttpOk (Inr (ten_in_two_seconds\<lparr>eval_count := None\<rparr>))) ''hello'' =
          Inr m \<and>
        oc_tokensPerSecond m = NaN)"
  using generateCompletion_throughput_is_all_tokens_over_all_time
      [where c = "ollama_config ''o'' True" and f = "ollama_generate steady"
        and p = "''hello''" and d = ten_in_two_seconds]
    generateCompletion_throughput_is_all_tokens_over_all_time
      [where c = "ollama_config ''o'' True"
        and f = "\<lambda>url body. HttpOk (Inr (ten_in_two_seconds\<lparr>eval_count := None\<rparr>))"
        and p = "''hello''" and d = "ten_in_two_seconds\<lparr>eval_count := None\<rparr>"]
  by (simp add: ollama_call_def steady_def ten_in_two_seconds_def)

text \<open>The claim as the specification states it fails: for a payload of ten completion
  tokens generated in two seconds, after twenty prompt tokens read in two seconds, the
  quotient of the claim is \<open>5\<close> and the throughput returned is \<open>7.5\<close>; and for
  the same payload without \<open>eval_count\<close> the throughput returned is \<open>NaN\<close>, not
  an estimate from the text.\<close>

theorem generateCompletion_differs_from_eval_ratio:
  "eval_count ten_in_two_seconds = Some 10 \<and>
   eval_duration ten_in_two_seconds = Some 2000000000 \<and>
   js_div (Fin 10) (js_div (Fin 2000000000) (Fin 1000000000)) = Fin 5 \<and>
   map_sum id oc_tokensPerSecond
     (OllamaService_generateCompletion (ollama_config ''o'' True) (ollama_generate steady)
        ''hello'') =
     Inr (Fin (15 / 2)) \<and>
   map_sum id oc_tokensPerSecond
     (OllamaService_generateCompletion (ollama_config ''o'' True)
        (\<lambda>url body. HttpOk (Inr (ten_in_two_seconds\<lparr>eval_count := None\<rparr>))) ''hello'') =
     Inr NaN"
  by (simp add: ollama_call_def ten_in_two_seconds_def OllamaService_generateCompletion_def
      steady_def to_num_def num_of_nat_def Let_def)

section \<open>Default generation parameters\<close>

text \<open>
  C9 (as the code has it). In the OpenAI, Anthropic and GGUF adapters a falsy configured
  value (absent, \<open>0\<close> or \<open>NaN\<close>) is replaced by the default in the request:
  temperature by \<open>0.7\<close>, max-tokens by \<open>1000\<close>; a truthy value is sent as it
  is. The Ollama adapter replaces a falsy temperature by \<open>0.7\<close> but sends the
  configured max-tokens unchanged as \<open>num_predict\<close>.
\<close>

theorem falsy_parameters_get_defaults:
  "(falsy (temperature c) \<longrightarrow>
      req_temperature (OpenAIService_request c p) = Fin (7 / 10) \<and>
      req_temperature (AnthropicService_request c p) = Fin (7 / 10)) \<and>
   (falsy (maxTokens c) \<longrightarrow>
      req_max_tokens (OpenAIService_request c p) = Fin 1000 \<and>
      req_max_tokens (AnthropicService_request c p) = Fin 1000) \<and>
   (falsy (temperature g) \<longrightarrow> gguf_temperature (GGUFService_request g p) = Fin (7 / 10)) \<and>
   (falsy (maxTokens g) \<longrightarrow> gguf_max_tokens (GGUFService_request g p) = Fin 1000) \<and>
   (falsy (temperature l) \<longrightarrow>
      opt_temperature (options (OllamaService_request l p)) = Fin (7 / 10)) \<and>
   num_predict (options (OllamaService_request l p)) = maxTokens l \<and>
   falsy None \<and> falsy (Some (Fin 0)) \<and> falsy (Some NaN) \<and>
   (\<forall>x. \<not> falsy (Some x) \<longrightarrow>
      (temperature c = Some x \<longrightarrow> req_temperature (OpenAIService_request c p) = x) \<and>
      (maxTokens c = Some x \<longrightarrow> req_max_tokens (OpenAIService_request c p) = x))"
  by (auto simp: falsy_def or_num_def OpenAIService_request_def AnthropicService_request_def
      GGUFService_request_def OllamaService_request_def split: option.splits)

theorem falsy_parameters_get_defaults_witness:
  "falsy (temperature ((api_config ''a'' ''openai'' True)
            \<lparr>temperature := Some (Fin 0), maxTokens := Some (Fin 0)\<rparr>)) \<and>
   OpenAIService_request
     ((api_config ''a'' ''openai'' True)\<lparr>temperature := Some (Fin 0), maxTokens := Some (Fin 0)\<rparr>)
     ''hello'' =
     \<lparr>req_model = ''gpt-4'', req_messages = [(''user'', ''hello'')],
      req_temperature = Fin (7 / 10), req_max_tokens = Fin 1000\<rparr> \<and>
   AnthropicService_request
     ((api_config ''a'' ''openai'' True)\<lparr>temperature := Some (Fin 0), maxTokens := Some (Fin 0)\<rparr>)
     ''hello'' =
     \<lparr>req_model = ''claude-3-opus-20240229'', req_messages = [(''user'', ''hello'')],
      req_temperature = Fin (7 / 10), req_max_tokens = Fin 1000\<rparr> \<and>
   gguf_temperature
     (GGUFService_request ((gguf_config ''g'' True)\<lparr>temperature := Some (Fin 0)\<rparr>) ''hello'') =
     Fin (7 / 10) \<and>
   gguf_max_tokens (GGUFService_request (gguf_config ''g'' True) ''hello'') = Fin 1000 \<and>
   opt_temperature
     (options (OllamaService_request ((ollama_config ''o'' True)\<lparr>temperature := Some NaN\<rparr>)
        ''hello'')) =
     Fin (7 / 10) \<and>
   \<not> falsy (Some (Fin (1 / 2))) \<and>
   req_temperature
     (OpenAIService_request ((api_config ''a'' ''openai'' True)\<lparr>temperature := Some (Fin (1 / 2))\<rparr>)
        ''hello'') =
     Fin (1 / 2)"
  using falsy_parameters_get_defaults
    [of "(api_config ''a'' ''openai'' True)
           \<lparr>temperature := Some (Fin 0), maxTokens := Some (Fin 0)\<rparr>"
      "''hello''" "(gguf_config ''g'' True)\<lparr>temperature := Some (Fin 0)\<rparr>"
      "(ollama_config ''o'' True)\<lparr>temperature := Some NaN\<rparr>"]
    falsy_parameters_get_defaults
    [of "(api_config ''a'' ''openai'' True)\<lparr>temperature := Some (Fin (1 / 2))\<rparr>" "''hello''"
      "gguf_config ''g'' True" "ollama_config ''o'' True"]
  by (simp add: falsy_def api_config_def gguf_config_def ollama_config_def
      OpenAIService_request_def AnthropicService_request_def or_str_def)

text \<open>The claim as the specification states it fails for the Ollama adapter: a
  configured max-tokens of \<open>0\<close> is sent as \<open>0\<close>, and an absent one stays
  absent.\<close>

theorem ollama_max_tokens_pass_through:
  "num_predict (options (OllamaService_request ((ollama_config ''o'' True)\<lparr>maxTokens := Some (Fin 0)\<rparr>) ''hello'')) =
     Some (Fin 0) \<and>
   num_predict (options (OllamaService_request (ollama_config ''o'' True) ''hello'')) = None"
  by (simp add: OllamaService_request_def ollama_config_def)

section \<open>validateConnections\<close>

lemma fold_results:
  "fold (\<lambda>(i, key, probe) results. results(key \<mapsto> probe (nets i))) (enumerate n ps) m =
   m ++ map_of (rev (stored nets n ps))"
proof (induction ps arbitrary: n m)
  case Nil
  then show ?case by (simp add: stored_def)
next
  case (Cons a ps)
  let ?F = "\<lambda>(i, key, probe) results. results(key \<mapsto> probe (nets i))"
  obtain k pr where a: "a = (k, pr)" by (cases a)
  have step: "stored nets n (a # ps) = (k, pr (nets n)) # stored nets (Suc n) ps"
    by (simp add: stored_def a)
  have "fold ?F (enumerate n (a # ps)) m = fold ?F (enumerate (Suc n) ps) (m(k \<mapsto> pr (nets n)))"
    by (simp add: a)
  also have "\<dots> = m(k \<mapsto> pr (nets n)) ++ map_of (rev (stored nets (Suc n) ps))"
    by (rule Cons.IH)
  also have "\<dots> = m ++ map_of (rev (stored nets n (a # ps)))"
    by (rule ext) (simp add: step map_add_def split: option.splits)
  finally show ?case .
qed

lemma keys_stored: "map fst (stored nets n ps) = map fst ps"
  by (induction ps arbitrary: n) (auto simp: stored_def)

lemma stored_nth:
  "i < length ps \<Longrightarrow> stored nets n ps ! i = (fst (ps ! i), snd (ps ! i) (nets (n + i)))"
  by (simp add: stored_def nth_enumerate_eq split_def)

lemma results_dom:
  assumes "validateConnections this w = Inr m"
  shows "dom m = set (map fst (probes this))"
proof -
  have "m = map_of (rev (stored (net w) 0 (probes this)))"
    using assms by (auto simp: validateConnections_def fold_results)
  then have "dom m = fst ` set (rev (stored (net w) 0 (probes this)))"
    by (simp only: dom_map_of_conv_image_fst)
  also have "\<dots> = set (map fst (stored (net w) 0 (probes this)))"
    by simp
  finally show ?thesis by (simp only: keys_stored)
qed

lemma results_value:
  assumes "validateConnections this w = Inr m" "distinct (map fst (probes this))"
    "i < length (probes this)"
  shows "m (fst (probes this ! i)) = Some (snd (probes this ! i) (net w i))"
proof -
  let ?kvs = "stored (net w) 0 (probes this)"
  have d: "distinct (map fst (rev ?kvs))"
    using assms(2) by (simp add: keys_stored rev_map [symmetric])
  have "?kvs ! i \<in> set (rev ?kvs)"
    using assms(3) by (simp add: stored_def)
  then have "(fst (probes this ! i), snd (probes this ! i) (net w i)) \<in> set (rev ?kvs)"
    using stored_nth [OF assms(3), of "net w" 0] by simp
  then have "map_of (rev ?kvs) (fst (probes this ! i)) = Some (snd (probes this ! i) (net w i))"
    using d by (rule map_of_is_SomeI [rotated])
  then show ?thesis using assms(1) by (auto simp: validateConnections_def fold_results)
qed

lemma probes_keys:
  "map fst (probes this) =
     map (\<lambda>s. ''openai-'' @ cfg_id s) (openai_services this) @
     map (\<lambda>s. ''anthropic-'' @ cfg_id s) (anthropic_services this) @
     map (\<lambda>s. ''ollama-'' @ cfg_id s) (ollama_services this) @
     map (\<lambda>s. ''gguf-'' @ cfg_id s) (gguf_services this)"
  by (simp add: probes_def comp_def)

lemma prefixed_distinct:
  "distinct (map cfg_id xs) \<Longrightarrow> distinct (map (\<lambda>s. pre @ cfg_id s) xs)"
  by (induction xs) auto

lemma probes_distinct:
  assumes "distinct (map cfg_id (openai_services this))"
    "distinct (map cfg_id (anthropic_services this))"
    "distinct (map cfg_id (ollama_services this))"
    "distinct (map cfg_id (gguf_services this))"
  shows "distinct (map fst (probes this))"
proof -
  have "distinct (map (\<lambda>s. ''openai-'' @ cfg_id s) (openai_services this))"
    "distinct (map (\<lambda>s. ''anthropic-'' @ cfg_id s) (anthropic_services this))"
    "distinct (map (\<lambda>s. ''ollama-'' @ cfg_id s) (ollama_services this))"
    "distinct (map (\<lambda>s. ''gguf-'' @ cfg_id s) (gguf_services this))"
    using assms by (simp_all only: prefixed_distinct)
  then show ?thesis by (auto simp: probes_keys)
qed

lemma probes_nth:
  "(i < length (openai_services this) \<longrightarrow>
      probes this ! i =
        (''openai-'' @ cfg_id (openai_services this ! i), probe_openai (openai_services this ! i))) \<and>
   (i < length (anthropic_services this) \<longrightarrow>
      probes this ! (length (openai_services this) + i) =
        (''anthropic-'' @ cfg_id (anthropic_services this ! i),
         probe_anthropic (anthropic_services this ! i))) \<and>
   (i < length (ollama_services this) \<longrightarrow>
      probes this ! (length (openai_services this) + length (anthropic_services this) + i) =
        (''ollama-'' @ cfg_id (ollama_services this ! i),
         probe_ollama (ollama_services this ! i))) \<and>
   (i < length (gguf_services this) \<longrightarrow>
      probes this ! (length (openai_services this) + length (anthropic_services this) +
                     length (ollama_services this) + i) =
        (''gguf-'' @ cfg_id (gguf_services this ! i), probe_gguf (gguf_services this ! i)))"
  by (simp add: probes_def nth_append)

lemma probes_length:
  "length (probes this) =
     length (openai_services this) + length (anthropic_services this) +
     length (ollama_services this) + length (gguf_services this)"
  by (simp add: probes_def)

lemma probe_openai_iff: "probe_openai c n = (\<not> openai_fails c n ''test'')"
  by (auto simp: probe_openai_def openai_fails_def openai_failed_def errors_have_messages_def
      OpenAIService_generateResponse_def OpenAIService_try_def OpenAIService_failure_def
      has_error_def or_str_def undefined_read_def Let_def
      split: fetch_outcome.splits sum.splits option.splits)

lemma probe_anthropic_iff: "probe_anthropic c n = (\<not> anthropic_fails c n ''test'')"
  by (auto simp: probe_anthropic_def anthropic_fails_def text_failed_def
      errors_have_messages_def AnthropicService_generateResponse_def AnthropicService_try_def
      AnthropicService_failure_def has_error_def or_str_def undefined_read_def Let_def
      split: fetch_outcome.splits sum.splits option.splits)

lemma probe_meaning:
  "probe_gguf g n = health_ok (gguf_health n (GGUFService_serverPort g)) \<and>
   probe_ollama l n =
     (case ollama_tags n (OllamaService_getApiUrl l ''tags'') of
        HttpOk (Inr (Some names)) \<Rightarrow> names \<noteq> []
      | _ \<Rightarrow> False) \<and>
   probe_openai c n = (\<not> openai_fails c n ''test'') \<and>
   probe_anthropic c n = (\<not> anthropic_fails c n ''test'')"
proof -
  have 1: "probe_gguf g n = health_ok (gguf_health n (GGUFService_serverPort g))"
    by (simp add: probe_gguf_def GGUFService_isServerRunning_def health_ok_def
        split: fetch_outcome.splits)
  have 2: "probe_ollama l n =
     (case ollama_tags n (OllamaService_getApiUrl l ''tags'') of
        HttpOk (Inr (Some names)) \<Rightarrow> names \<noteq> []
      | _ \<Rightarrow> False)"
    by (simp add: probe_ollama_def OllamaService_listModels_def
        split: fetch_outcome.splits sum.splits option.splits)
  from 1 2 probe_openai_iff [of c n] probe_anthropic_iff [of c n] show ?thesis by blast
qed

lemma validateConnections_results:
  "\<exists>m. validateConnections (updateConfigs this cfgs) w = Inr m \<and>
     dom m =
       (\<lambda>s. ''openai-'' @ cfg_id s) ` set (filter enabled (openai cfgs)) \<union>
       (\<lambda>s. ''anthropic-'' @ cfg_id s) ` set (filter enabled (anthropic cfgs)) \<union>
       (\<lambda>s. ''ollama-'' @ cfg_id s) ` set (filter enabled (ollama cfgs)) \<union>
       (\<lambda>s. ''gguf-'' @ cfg_id s) ` set (filter enabled (gguf cfgs)) \<and>
     (distinct (map cfg_id (filter enabled (openai cfgs))) \<and>
      distinct (map cfg_id (filter enabled (anthropic cfgs))) \<and>
      distinct (map cfg_id (filter enabled (ollama cfgs))) \<and>
      distinct (map cfg_id (filter enabled (gguf cfgs))) \<longrightarrow>
      (\<forall>i. (i < length (filter enabled (openai cfgs)) \<longrightarrow>
              m (''openai-'' @ cfg_id (filter enabled (openai cfgs) ! i)) =
                Some (probe_openai (filter enabled (openai cfgs) ! i) (net w i))) \<and>
           (i < length (filter enabled (anthropic cfgs)) \<longrightarrow>
              m (''anthropic-'' @ cfg_id (filter enabled (anthropic cfgs) ! i)) =
                Some (probe_anthropic (filter enabled (anthropic cfgs) ! i)
                        (net w (length (filter enabled (openai cfgs)) + i)))) \<and>
           (i < length (filter enabled (ollama cfgs)) \<longrightarrow>
              m (''ollama-'' @ cfg_id (filter enabled (ollama cfgs) ! i)) =
                Some (probe_ollama (filter enabled (ollama cfgs) ! i)
                        (net w (length (filter enabled (openai cfgs)) +
                                length (filter enabled (anthropic cfgs)) + i)))) \<and>
           (i < length (filter enabled (gguf cfgs)) \<longrightarrow>
              m (''gguf-'' @ cfg_id (filter enabled (gguf cfgs) ! i)) =
                Some (probe_gguf (filter enabled (gguf cfgs) ! i)
                        (net w (length (filter enabled (openai cfgs)) +
                                length (filter enabled (anthropic cfgs)) +
                                length (filter enabled (ollama cfgs)) + i))))))"
proof -
  let ?S = "updateConfigs this cfgs"
  obtain m where m: "validateConnections ?S w = Inr m"
    by (simp add: validateConnections_def)
  have sv: "openai_services ?S = filter enabled (openai cfgs)"
    "anthropic_services ?S = filter enabled (anthropic cfgs)"
    "ollama_services ?S = filter enabled (ollama cfgs)"
    "gguf_services ?S = filter enabled (gguf cfgs)"
    by (simp_all add: updateConfigs_def)
  have d: "dom m =
       (\<lambda>s. ''openai-'' @ cfg_id s) ` set (filter enabled (openai cfgs)) \<union>
       (\<lambda>s. ''anthropic-'' @ cfg_id s) ` set (filter enabled (anthropic cfgs)) \<union>
       (\<lambda>s. ''ollama-'' @ cfg_id s) ` set (filter enabled (ollama cfgs)) \<union>
       (\<lambda>s. ''gguf-'' @ cfg_id s) ` set (filter enabled (gguf cfgs))"
    unfolding results_dom [OF m] probes_keys sv by (simp add: Un_assoc)
  have v: "m (fst (probes ?S ! j)) = Some (snd (probes ?S ! j) (net w j))"
    if "distinct (map cfg_id (filter enabled (openai cfgs)))"
      "distinct (map cfg_id (filter enabled (anthropic cfgs)))"
      "distinct (map cfg_id (filter enabled (ollama cfgs)))"
      "distinct (map cfg_id (filter enabled (gguf cfgs)))"
      "j < length (probes ?S)" for j
    using results_value [OF m probes_distinct that(5)] that(1-4) by (simp add: sv)
  show ?thesis
  proof (intro exI [of _ m] conjI impI allI)
    show "validateConnections ?S w = Inr m" by (rule m)
    show "dom m =
       (\<lambda>s. ''openai-'' @ cfg_id s) ` set (filter enabled (openai cfgs)) \<union>
       (\<lambda>s. ''anthropic-'' @ cfg_id s) ` set (filter enabled (anthropic cfgs)) \<union>
       (\<lambda>s. ''ollama-'' @ cfg_id s) ` set (filter enabled (ollama cfgs)) \<union>
       (\<lambda>s. ''gguf-'' @ cfg_id s) ` set (filter enabled (gguf cfgs))" by (rule d)
  next
    fix i
    assume D: "distinct (map cfg_id (filter enabled (openai cfgs))) \<and>
      distinct (map cfg_id (filter enabled (anthropic cfgs))) \<and>
      distinct (map cfg_id (filter enabled (ollama cfgs))) \<and>
      distinct (map cfg_id (filter enabled (gguf cfgs)))"
      and i: "i < length (filter enabled (openai cfgs))"
    have "i < length (probes ?S)" using i by (simp add: probes_length sv)
    from v [OF _ _ _ _ this] D probes_nth [of i ?S] i
    show "m (''openai-'' @ cfg_id (filter enabled (openai cfgs) ! i)) =
                Some (probe_openai (filter enabled (openai cfgs) ! i) (net w i))"
      by (simp add: sv)
  next
    fix i
    assume D: "distinct (map cfg_id (filter enabled (openai cfgs))) \<and>
      distinct (map cfg_id (filter enabled (anthropic cfgs))) \<and>
      distinct (map cfg_id (filter enabled (ollama cfgs))) \<and>
      distinct (map cfg_id (filter enabled (gguf cfgs)))"
      and i: "i < length (filter enabled (anthropic cfgs))"
    let ?j = "length (filter enabled (openai cfgs)) + i"
    have "?j < length (probes ?S)" using i by (simp add: probes_length sv)
    from v [OF _ _ _ _ this] D probes_nth [of i ?S] i
    show "m (''anthropic-'' @ cfg_id (filter enabled (anthropic cfgs) ! i)) =
                Some (probe_anthropic (filter enabled (anthropic cfgs) ! i) (net w ?j))"
      by (simp add: sv)
  next
    fix i
    assume D: "distinct (map cfg_id (filter enabled (openai cfgs))) \<and>
      distinct (map cfg_id (filter enabled (anthropic cfgs))) \<and>
      distinct (map cfg_id (filter enabled (ollama cfgs))) \<and>
      distinct (map cfg_id (filter enabled (gguf cfgs)))"
      and i: "i < length (filter enabled (ollama cfgs))"
    let ?j = "length (filter enabled (openai cfgs)) + length (filter enabled (anthropic cfgs)) + i"
    have "?j < length (probes ?S)" using i by (simp add: probes_length sv)
    from v [OF _ _ _ _ this] D probes_nth [of i ?S] i
    show "m (''ollama-'' @ cfg_id (filter enabled (ollama cfgs) ! i)) =
                Some (probe_ollama (filter enabled (ollama cfgs) ! i) (net w ?j))"
      by (simp add: sv)
  next
    fix i
    assume D: "distinct (map cfg_id (filter enabled (openai cfgs))) \<and>
      distinct (map cfg_id (filter enabled (anthropic cfgs))) \<and>
      distinct (map cfg_id (filter enabled (ollama cfgs))) \<and>
      distinct (map cfg_id (filter enabled (gguf cfgs)))"
      and i: "i < length (filter enabled (gguf cfgs))"
    let ?j = "length (filter enabled (openai cfgs)) + length (filter enabled (anthropic cfgs)) +
              length (filter enabled (ollama cfgs)) + i"
    have "?j < length (probes ?S)" using i by (simp add: probes_length sv)
    from v [OF _ _ _ _ this] D probes_nth [of i ?S] i
    show "m (''gguf-'' @ cfg_id (filter enabled (gguf cfgs) ! i)) =
                Some (probe_gguf (filter enabled (gguf cfgs) ! i) (net w ?j))"
      by (simp add: sv)
  qed
qed

text \<open>
  C8 (as the code has it). \<open>validateConnections\<close> never throws. The keys of the
  mapping it returns are the strings \<open>openai-<id>\<close>, \<open>anthropic-<id>\<close>,
  \<open>ollama-<id>\<close> and \<open>gguf-<id>\<close> of the enabled configurations of these four
  kinds (google and huggingface configurations are not probed), and, ids being distinct
  within a kind, the value of a key is the outcome of the probe of its service on the
  network of its call. The probes: for gguf, true iff the health request had a success
  status; for ollama, true iff the listing returned at least one model; for openai and
  anthropic, true iff the generation for the prompt \<open>test\<close> did not fail with a
  message (a network failure, a non-success status, a body that is not JSON, or a body
  on which a read of the adapter throws).
\<close>

theorem validateConnections_keys_and_values:
  "(\<exists>m. validateConnections (updateConfigs this cfgs) w = Inr m \<and>
     dom m =
       (\<lambda>s. ''openai-'' @ cfg_id s) ` set (filter enabled (openai cfgs)) \<union>
       (\<lambda>s. ''anthropic-'' @ cfg_id s) ` set (filter enabled (anthropic cfgs)) \<union>
       (\<lambda>s. ''ollama-'' @ cfg_id s) ` set (filter enabled (ollama cfgs)) \<union>
       (\<lambda>s. ''gguf-'' @ cfg_id s) ` set (filter enabled (gguf cfgs)) \<and>
     (distinct (map cfg_id (filter enabled (openai cfgs))) \<and>
      distinct (map cfg_id (filter enabled (anthropic cfgs))) \<and>
      distinct (map cfg_id (filter enabled (ollama cfgs))) \<and>
      distinct (map cfg_id (filter enabled (gguf cfgs))) \<longrightarrow>
      (\<forall>i. (i < length (filter enabled (openai cfgs)) \<longrightarrow>
              m (''openai-'' @ cfg_id (filter enabled (openai cfgs) ! i)) =
                Some (probe_openai (filter enabled (openai cfgs) ! i) (net w i))) \<and>
           (i < length (filter enabled (anthropic cfgs)) \<longrightarrow>
              m (''anthropic-'' @ cfg_id (filter enabled (anthropic cfgs) ! i)) =
                Some (probe_anthropic (filter enabled (anthropic cfgs) ! i)
                        (net w (length (filter enabled (openai cfgs)) + i)))) \<and>
           (i < length (filter enabled (ollama cfgs)) \<longrightarrow>
              m (''ollama-'' @ cfg_id (filter enabled (ollama cfgs) ! i)) =
                Some (probe_ollama (filter enabled (ollama cfgs) ! i)
                        (net w (length (filter enabled (openai cfgs)) +
                                length (filter enabled (anthropic cfgs)) + i)))) \<and>
           (i < length (filter enabled (gguf cfgs)) \<longrightarrow>
              m (''gguf-'' @ cfg_id (filter enabled (gguf cfgs) ! i)) =
                Some (probe_gguf (filter enabled (gguf cfgs) ! i)
                        (net w (length (filter enabled (openai cfgs)) +
                                length (filter enabled (anthropic cfgs)) +
                                length (filter enabled (ollama cfgs)) + i))))))) \<and>
   probe_gguf g n = health_ok (gguf_health n (GGUFService_serverPort g)) \<and>
   probe_ollama l n =
     (case ollama_tags n (OllamaService_getApiUrl l ''tags'') of
        HttpOk (Inr (Some names)) \<Rightarrow> names \<noteq> []
      | _ \<Rightarrow> False) \<and>
   probe_openai c n = (\<not> openai_fails c n ''test'') \<and>
   probe_anthropic c n = (\<not> anthropic_fails c n ''test'')"
  using validateConnections_results [of this cfgs w] probe_meaning [of g n l c]
  by (rule conjI)

theorem validateConnections_keys_and_values_witness:
  "distinct (map cfg_id (filter enabled (openai mixed_configs))) \<and>
   distinct (map cfg_id (filter enabled (anthropic mixed_configs))) \<and>
   distinct (map cfg_id (filter enabled (ollama mixed_configs))) \<and>
   distinct (map cfg_id (filter enabled (gguf mixed_configs))) \<and>
   (\<exists>m. validateConnections (updateConfigs ComparisonService_new mixed_configs) two_phase = Inr m \<and>
        dom m = {''openai-a'', ''gguf-g''} \<and>
        m ''openai-a'' = Some False \<and> m ''gguf-g'' = Some True) \<and>
   \<not> openai_fails (api_config ''a'' ''openai'' True) steady ''test'' \<and>
   probe_openai (api_config ''a'' ''openai'' True) steady \<and>
   \<not> anthropic_fails (api_config ''a'' ''openai'' True) steady ''test'' \<and>
   probe_anthropic (api_config ''a'' ''openai'' True) steady \<and>
   probe_gguf (gguf_config ''g'' True) steady \<and>
   probe_ollama (ollama_config ''o'' True) steady \<and>
   \<not> openai_fails (api_config ''a'' ''openai'' True) sparse ''test'' \<and>
   probe_openai (api_config ''a'' ''openai'' True) sparse \<and>
   openai_fails (api_config ''a'' ''openai'' True) unauthorized ''test'' \<and>
   \<not> probe_openai (api_config ''a'' ''openai'' True) unauthorized \<and>
   anthropic_fails (api_config ''a'' ''openai'' True) unauthorized ''test'' \<and>
   \<not> probe_anthropic (api_config ''a'' ''openai'' True) unauthorized"
proof -
  have e: "filter enabled (openai mixed_configs) = [api_config ''a'' ''openai'' True]"
    "filter enabled (anthropic mixed_configs) = []"
    "filter enabled (ollama mixed_configs) = []"
    "filter enabled (gguf mixed_configs) = [gguf_config ''g'' True]"
    by (simp_all add: mixed_configs_def no_configs_def api_config_def gguf_config_def)
  have po: "probe_openai (api_config ''a'' ''openai'' True) (net two_phase 0) = False"
    by (simp add: openai_call_def probe_openai_def two_phase_def offline_def unreachable_def
        OpenAIService_generateResponse_def OpenAIService_try_def OpenAIService_failure_def
        has_error_def)
  have pg: "probe_gguf (gguf_config ''g'' True) (net two_phase 1) = True"
    by (simp add: probe_gguf_def two_phase_def steady_def GGUFService_isServerRunning_def)
  note inst = validateConnections_keys_and_values
    [where this = ComparisonService_new and cfgs = mixed_configs and w = two_phase
      and c = "api_config ''a'' ''openai'' True" and n = steady
      and g = "gguf_config ''g'' True" and l = "ollama_config ''o'' True"]
  note inst_sparse = validateConnections_keys_and_values
    [where this = ComparisonService_new and cfgs = mixed_configs and w = two_phase
      and c = "api_config ''a'' ''openai'' True" and n = sparse
      and g = "gguf_config ''g'' True" and l = "ollama_config ''o'' True"]
  note inst_unauthorized = validateConnections_keys_and_values
    [where this = ComparisonService_new and cfgs = mixed_configs and w = two_phase
      and c = "api_config ''a'' ''openai'' True" and n = unauthorized
      and g = "gguf_config ''g'' True" and l = "ollama_config ''o'' True"]
  from inst [THEN conjunct1]
  obtain m where m:
    "validateConnections (updateConfigs ComparisonService_new mixed_configs) two_phase = Inr m"
    "dom m = {''openai-a'', ''gguf-g''}"
    "\<forall>i. (i < 1 \<longrightarrow> m (''openai-'' @ cfg_id ([api_config ''a'' ''openai'' True] ! i)) =
                Some (probe_openai ([api_config ''a'' ''openai'' True] ! i) (net two_phase i))) \<and>
         (i < 1 \<longrightarrow> m (''gguf-'' @ cfg_id ([gguf_config ''g'' True] ! i)) =
                Some (probe_gguf ([gguf_config ''g'' True] ! i) (net two_phase (1 + i))))"
    unfolding e by (auto simp: api_config_def gguf_config_def)
  from m(3) [rule_format, of 0] po pg
  have v: "m ''openai-a'' = Some False" "m ''gguf-g'' = Some True"
    by (simp_all add: api_config_def gguf_config_def)
  have ok: "\<not> openai_fails (api_config ''a'' ''openai'' True) steady ''test''"
    "\<not> anthropic_fails (api_config ''a'' ''openai'' True) steady ''test''"
    "\<not> openai_fails (api_config ''a'' ''openai'' True) sparse ''test''"
    by (simp_all add: openai_fails_def anthropic_fails_def openai_failed_def text_failed_def
        openai_call_def anthropic_call_def steady_def sparse_def)
  have ko: "openai_fails (api_config ''a'' ''openai'' True) unauthorized ''test''"
    "anthropic_fails (api_config ''a'' ''openai'' True) unauthorized ''test''"
    by (simp_all add: openai_fails_def anthropic_fails_def openai_failed_def text_failed_def
        errors_have_messages_def openai_call_def anthropic_call_def unauthorized_def steady_def)
  have pr: "probe_openai (api_config ''a'' ''openai'' True) steady"
    "probe_anthropic (api_config ''a'' ''openai'' True) steady"
    "probe_gguf (gguf_config ''g'' True) steady"
    "probe_ollama (ollama_config ''o'' True) steady"
    using inst [THEN conjunct2] ok
    by (simp_all add: health_ok_def steady_def)
  have ps: "probe_openai (api_config ''a'' ''openai'' True) sparse"
    using inst_sparse [THEN conjunct2] ok by simp
  have pu: "\<not> probe_openai (api_config ''a'' ''openai'' True) unauthorized"
    "\<not> probe_anthropic (api_config ''a'' ''openai'' True) unauthorized"
    using inst_unauthorized [THEN conjunct2] ko by simp_all
  from m(1,2) e v ok ko pr ps pu show ?thesis by simp
qed

text \<open>The claim as the specification states it fails: the key of the enabled openai
  configuration \<open>a\<close> is \<open>openai-a\<close>, not \<open>a\<close>; an enabled huggingface
  configuration gets no key; and an Ollama server that answers with an empty listing
  counts as not connected.\<close>

theorem validateConnections_prefixes_keys:
  "(case validateConnections (updateConfigs ComparisonService_new one_openai) offline_world of
      Inl e \<Rightarrow> False
    | Inr m \<Rightarrow> m ''a'' = None \<and> m ''openai-a'' = Some False \<and> dom m = {''openai-a''}) \<and>
   validateConnections (updateConfigs ComparisonService_new hf_only) offline_world = Inr Map.empty \<and>
   probe_ollama (ollama_config ''o'' True) instant = False"
  by (simp add: openai_call_def validateConnections_def updateConfigs_def one_openai_def hf_only_def
      no_configs_def api_config_def probes_def offline_world_def probe_openai_def
      offline_def unreachable_def OpenAIService_generateResponse_def OpenAIService_try_def
      OpenAIService_failure_def has_error_def probe_ollama_def instant_def
      OllamaService_listModels_def)

end
